theory Spec2Isabelle
  imports Complex_Main "HOL-Library.Word" "HOL-Library.Log_Nat"
begin

unbundle bit_operations_syntax

section \<open>Bytes, accounts, instructions, transactions\<close>

text \<open>
  The wheel-spin front end talks to a remote program through binary instructions. The
  types below are the ones declared in \<^verbatim>\<open>utils/transactionHelpers.ts\<close>
  (\<^verbatim>\<open>Account\<close>, \<^verbatim>\<open>Instruction\<close>) and the object literals the
  front end passes to the SDK (message, transaction). A \<^verbatim>\<open>Uint8Array\<close> is a list
  of 8-bit words.
\<close>

type_synonym byte = "8 word"
type_synonym bytes = "byte list"
type_synonym u32 = "32 word"

record Account =
  pubkey :: bytes
  is_signer :: bool
  is_writable :: bool

record Instruction =
  program_id :: bytes
  accounts :: "Account list"
  data :: bytes

record Message =
  signers :: "bytes list"
  instructions :: "Instruction list"

text \<open>
  A transaction's \<^verbatim>\<open>signatures\<close> array holds what the signing callback left in
  its variable: a byte array, or \<^verbatim>\<open>null\<close> (\<open>None\<close>) where the code does not
  check it before building the transaction.
\<close>

record Transaction =
  version :: nat
  signatures :: "bytes option list"
  message :: Message

text \<open>\<^verbatim>\<open>Buffer.concat\<close>: the arrays one after the other.\<close>

definition Buffer_concat :: "bytes list \<Rightarrow> bytes" where
  "Buffer_concat parts = concat parts"

section \<open>SHA-256, the digest behind \<^verbatim>\<open>crypto.subtle.digest\<close>\<close>

text \<open>
  The commitment of a spin is \<^verbatim>\<open>crypto.subtle.digest('SHA-256', userSecret)\<close>. The
  digest is the platform's; it is modelled here by the function the standard defines
  (FIPS 180-4), on 32-bit words.
\<close>

definition rotr :: "nat \<Rightarrow> u32 \<Rightarrow> u32" where
  "rotr n x = drop_bit n x OR push_bit (32 - n) x"

definition Ch :: "u32 \<Rightarrow> u32 \<Rightarrow> u32 \<Rightarrow> u32" where
  "Ch x y z = (x AND y) XOR (NOT x AND z)"

definition Maj :: "u32 \<Rightarrow> u32 \<Rightarrow> u32 \<Rightarrow> u32" where
  "Maj x y z = (x AND y) XOR (x AND z) XOR (y AND z)"

definition Sigma0 :: "u32 \<Rightarrow> u32" where
  "Sigma0 x = rotr 2 x XOR rotr 13 x XOR rotr 22 x"

definition Sigma1 :: "u32 \<Rightarrow> u32" where
  "Sigma1 x = rotr 6 x XOR rotr 11 x XOR rotr 25 x"

definition sigma0 :: "u32 \<Rightarrow> u32" where
  "sigma0 x = rotr 7 x XOR rotr 18 x XOR drop_bit 3 x"

definition sigma1 :: "u32 \<Rightarrow> u32" where
  "sigma1 x = rotr 17 x XOR rotr 19 x XOR drop_bit 10 x"

definition K256 :: "u32 list" where
  "K256 =
   [1116352408, 1899447441, 3049323471, 3921009573, 961987163, 1508970993, 2453635748, 2870763221,
    3624381080, 310598401, 607225278, 1426881987, 1925078388, 2162078206, 2614888103, 3248222580,
    3835390401, 4022224774, 264347078, 604807628, 770255983, 1249150122, 1555081692, 1996064986,
    2554220882, 2821834349, 2952996808, 3210313671, 3336571891, 3584528711, 113926993, 338241895,
    666307205, 773529912, 1294757372, 1396182291, 1695183700, 1986661051, 2177026350, 2456956037,
    2730485921, 2820302411, 3259730800, 3345764771, 3516065817, 3600352804, 4094571909, 275423344,
    430227734, 506948616, 659060556, 883997877, 958139571, 1322822218, 1537002063, 1747873779,
    1955562222, 2024104815, 2227730452, 2361852424, 2428436474, 2756734187, 3204031479, 3329325298]"

type_synonym sha_state = "u32 \<times> u32 \<times> u32 \<times> u32 \<times> u32 \<times> u32 \<times> u32 \<times> u32"

definition H256 :: sha_state where
  "H256 = (1779033703, 3144134277, 1013904242, 2773480762,
           1359893119, 2600822924, 528734635, 1541459225)"

definition be32 :: "u32 \<Rightarrow> bytes" where
  "be32 w = [ucast (drop_bit 24 w), ucast (drop_bit 16 w), ucast (drop_bit 8 w), ucast w]"

definition be64 :: "nat \<Rightarrow> bytes" where
  "be64 n = (let w = (of_nat n :: 64 word) in
     [ucast (drop_bit 56 w), ucast (drop_bit 48 w), ucast (drop_bit 40 w), ucast (drop_bit 32 w),
      ucast (drop_bit 24 w), ucast (drop_bit 16 w), ucast (drop_bit 8 w), ucast w])"

definition word_of_be :: "bytes \<Rightarrow> u32" where
  "word_of_be bs = foldl (\<lambda>acc b. push_bit 8 acc OR ucast b) 0 bs"

definition pad :: "bytes \<Rightarrow> bytes" where
  "pad m = m @ [128] @ replicate ((64 - (length m + 9) mod 64) mod 64) 0 @ be64 (8 * length m)"

primrec words_of :: "nat \<Rightarrow> bytes \<Rightarrow> u32 list" where
  "words_of 0 bs = []"
| "words_of (Suc n) bs = word_of_be (take 4 bs) # words_of n (drop 4 bs)"

primrec schedule :: "nat \<Rightarrow> u32 list \<Rightarrow> u32 list" where
  "schedule 0 w = w"
| "schedule (Suc n) w =
     schedule n (w @ [sigma1 (w ! (length w - 2)) + w ! (length w - 7)
                      + sigma0 (w ! (length w - 15)) + w ! (length w - 16)])"

definition round256 :: "sha_state \<Rightarrow> u32 \<times> u32 \<Rightarrow> sha_state" where
  "round256 s kw =
     (case s of (a, b, c, d, e, f, g, h) \<Rightarrow>
        (let t1 = h + Sigma1 e + Ch e f g + fst kw + snd kw;
             t2 = Sigma0 a + Maj a b c
         in (t1 + t2, a, b, c, d + t1, e, f, g)))"

definition compress :: "sha_state \<Rightarrow> bytes \<Rightarrow> sha_state" where
  "compress s block =
     (case s of (a, b, c, d, e, f, g, h) \<Rightarrow>
      (case foldl round256 s (zip K256 (schedule 48 (words_of 16 block))) of
         (a', b', c', d', e', f', g', h') \<Rightarrow>
           (a + a', b + b', c + c', d + d', e + e', f + f', g + g', h + h')))"

primrec blocks :: "nat \<Rightarrow> bytes \<Rightarrow> bytes list" where
  "blocks 0 bs = []"
| "blocks (Suc n) bs = take 64 bs # blocks n (drop 64 bs)"

definition sha256 :: "bytes \<Rightarrow> bytes" where
  "sha256 m =
     (let p = pad m in
      case foldl compress H256 (blocks (length p div 64) p) of
        (a, b, c, d, e, f, g, h) \<Rightarrow>
          be32 a @ be32 b @ be32 c @ be32 d @ be32 e @ be32 f @ be32 g @ be32 h)"

section \<open>External collaborators\<close>

text \<open>
  What \<^verbatim>\<open>borsh.deserialize\<close> returns for the schema of \<^verbatim>\<open>checkWheelState\<close>,
  \<^verbatim>\<open>{initialized: 'bool', prizes: array of string, probabilities: array of u8}\<close>.
  A JavaScript string is kept as the list of its code points.
\<close>

record WheelState =
  initialized :: bool
  prizes :: "nat list list"
  probabilities :: bytes

text \<open>
  Four functions come from libraries outside the repository and are parameters of the
  model: \<^verbatim>\<open>PubkeyUtil.fromHex\<close> and \<^verbatim>\<open>MessageUtil.hash\<close> of the SDK,
  \<^verbatim>\<open>Buffer.from(_, 'base64')\<close>, and \<^verbatim>\<open>borsh.deserialize\<close> with the schema of
  \<^verbatim>\<open>checkWheelState\<close> (\<open>None\<close> where the library throws, whatever the exception).
  The build-time configuration (\<^verbatim>\<open>import.meta.env\<close>) is a record of the strings
  the code reads.
\<close>

record deps =
  fromHex :: "string \<Rightarrow> bytes"
  hash :: "Message \<Rightarrow> bytes"
  base64 :: "string \<Rightarrow> bytes"
  deserialize :: "bytes \<Rightarrow> WheelState option"

record config =
  VITE_PROGRAM_ID :: string
  VITE_WHEEL_STATE_ACCOUNT :: string
  VITE_RECENT_BLOCKHASHES :: string
  VITE_SLOT_INFO :: string

text \<open>
  The errors the code throws itself, by their messages, and the rejection of a remote
  call (\<^verbatim>\<open>sdk.sendTransaction\<close>, \<^verbatim>\<open>sdk.readAccountInfo\<close>).
\<close>

datatype error =
    No_signature_returned
  | User_cancelled_signing
  | No_signature_returned_from_wallet
  | No_reveal_signature_returned_from_wallet
  | Rpc_error string

text \<open>
  A value that may be \<^verbatim>\<open>null\<close> or \<^verbatim>\<open>undefined\<close> is an option. JavaScript's
  \<^verbatim>\<open>!x\<close> on such a string holds for \<^verbatim>\<open>null\<close>, \<^verbatim>\<open>undefined\<close> and the
  empty string.
\<close>

definition falsy :: "string option \<Rightarrow> bool" where
  "falsy x = (case x of None \<Rightarrow> True | Some s \<Rightarrow> s = [])"

text \<open>
  What the wallet does with a signing request: it calls \<^verbatim>\<open>onFinish\<close> with a
  response, it calls \<^verbatim>\<open>onCancel\<close>, or the call settles with neither callback run.
  An exception thrown by a callback rejects the awaited call.
\<close>

datatype wallet_reply = Finish "string option" | Cancel | Silent

definition signMessage ::
  "(string option \<Rightarrow> error + bytes) \<Rightarrow> error \<Rightarrow> wallet_reply \<Rightarrow> error + bytes option" where
  "signMessage onFinish onCancel w =
     (case w of
        Finish response \<Rightarrow>
          (case onFinish response of Inl e \<Rightarrow> Inl e | Inr signature \<Rightarrow> Inr (Some signature))
      | Cancel \<Rightarrow> Inl onCancel
      | Silent \<Rightarrow> Inr None)"

text \<open>What the client can be observed to do: the trace of a call.\<close>

datatype sign_payload = Hash_hex bytes | Literal string

datatype event =
    Built Instruction
  | Sign_requested sign_payload string
  | Submitted Transaction

section \<open>\<^verbatim>\<open>sendTransaction\<close> (utils/transactionHelpers.ts)\<close>

text \<open>
  \<^verbatim>\<open>onFinish\<close> of \<^verbatim>\<open>sendTransaction\<close>:
  \<^verbatim>\<open>if (!response) throw new Error('No signature returned')\<close>, then
  \<^verbatim>\<open>signature = new Uint8Array(Buffer.from(response, 'base64')).slice(2)\<close>.
  \<^verbatim>\<open>slice(2)\<close> is everything from index 2 on.
\<close>

definition sendTransaction_onFinish :: "deps \<Rightarrow> string option \<Rightarrow> error + bytes" where
  "sendTransaction_onFinish d response =
     (case response of
        None \<Rightarrow> Inl No_signature_returned
      | Some r \<Rightarrow> if r = [] then Inl No_signature_returned else Inr (drop 2 (base64 d r)))"

text \<open>
  The wallet's reply and the endpoint's answer to \<^verbatim>\<open>sdk.sendTransaction(tx)\<close> are
  inputs. The message hash is sent to the wallet as a hex string; the trace keeps the
  bytes.
\<close>

definition sendTransaction ::
  "deps \<Rightarrow> wallet_reply \<Rightarrow> error + string \<Rightarrow> string \<Rightarrow> string \<Rightarrow> Instruction
     \<Rightarrow> event list \<times> (error + string)" where
  "sendTransaction d wallet rpc walletAddress publicKey instruction =
     (let messageObj = \<lparr>signers = [fromHex d publicKey], instructions = [instruction]\<rparr>;
          messageHash = hash d messageObj;
          request = Sign_requested (Hash_hex messageHash) walletAddress
      in case signMessage (sendTransaction_onFinish d) User_cancelled_signing wallet of
           Inl e \<Rightarrow> ([request], Inl e)
         | Inr None \<Rightarrow> ([request], Inl No_signature_returned_from_wallet)
         | Inr (Some signature) \<Rightarrow>
             (let tx = \<lparr>version = 0, signatures = [Some signature], message = messageObj\<rparr>
              in ([request, Submitted tx], rpc)))"

section \<open>JavaScript numbers\<close>

text \<open>
  A JavaScript number is an IEEE 754 double. A finite double is a rational number, and
  the result of an arithmetic operation is the exact result rounded to the nearest
  double, ties to the even mantissa. Only what
  \<^verbatim>\<open>Math.floor(Math.random() * wheelData.length)\<close> needs is modelled: the product of
  two nonnegative numbers far below the overflow threshold. \<open>binade x\<close> is the
  exponent \<open>e\<close> with \<open>2\<^sup>e \<le> x < 2\<^sup>e\<^sup>+\<^sup>1\<close>; \<open>ulp x\<close> is the distance between
  neighbouring doubles there (53-bit mantissas, subnormals below \<open>2\<^sup>-\<^sup>1\<^sup>0\<^sup>2\<^sup>2\<close>).
\<close>

definition binade :: "rat \<Rightarrow> int" where
  "binade x = (if 1 \<le> x then bitlen \<lfloor>x\<rfloor> - 1 else - bitlen (\<lceil>1 / x\<rceil> - 1))"

definition ulp :: "rat \<Rightarrow> rat" where
  "ulp x = 2 powi (max (binade x) (- 1022) - 52)"

definition round_to_double :: "rat \<Rightarrow> rat" where
  "round_to_double x =
     (if x = 0 then 0
      else
        (let u = ulp x; q = x / u; f = \<lfloor>q\<rfloor>; d = q - of_int f
         in if d < 1 / 2 \<or> (d = 1 / 2 \<and> even f) then of_int f * u else (of_int f + 1) * u))"

definition double_mult :: "rat \<Rightarrow> rat \<Rightarrow> rat" where
  "double_mult x y = round_to_double (x * y)"

section \<open>The application state and the spin orchestrator\<close>

record wheel_entry =
  option :: string
  backgroundColor :: string
  textColor :: string

definition wheelData :: "wheel_entry list" where
  "wheelData =
     [\<lparr>option = ''Pub #123 '', backgroundColor = ''#ff8f43'', textColor = ''white''\<rparr>,
      \<lparr>option = ''Loser'', backgroundColor = ''#70bbe0'', textColor = ''white''\<rparr>,
      \<lparr>option = ''Loser'', backgroundColor = ''#ff5252'', textColor = ''white''\<rparr>]"

record wheel_state =
  isSpinning :: bool
  currentPrize :: "string option"
  prizeNumber :: int

record app_state =
  wheelState :: wheel_state
  walletAddress :: "string option"
  publicKey :: "string option"
  sdk :: bool
  isAdmin :: bool
  isInitialized :: bool

definition initial_state :: app_state where
  "initial_state =
     \<lparr>wheelState = \<lparr>isSpinning = False, currentPrize = None, prizeNumber = 0\<rparr>,
      walletAddress = None, publicKey = None, sdk = False,
      isAdmin = False, isInitialized = False\<rparr>"

text \<open>
  \<^verbatim>\<open>crypto.getRandomValues(new Uint8Array(n))\<close> fills an array of \<open>n\<close> bytes from
  the platform's entropy. The entropy delivered to one call is an input: byte \<open>i\<close> of
  the array is \<open>src i\<close>.
\<close>

definition getRandomValues :: "(nat \<Rightarrow> byte) \<Rightarrow> nat \<Rightarrow> bytes" where
  "getRandomValues src n = map src [0..<n]"

text \<open>The inputs of one spin: everything the environment decides.\<close>

record spin_env =
  entropy :: "nat \<Rightarrow> byte"
  commit_wallet :: wallet_reply
  commit_rpc :: "error + string"
  reveal_wallet :: wallet_reply
  reveal_rpc :: "error + string"
  math_random :: rat

text \<open>The two instructions of a spin, as the object literals of \<^verbatim>\<open>spinWheel\<close>.\<close>

definition commitInstruction :: "deps \<Rightarrow> config \<Rightarrow> string \<Rightarrow> bytes \<Rightarrow> Instruction" where
  "commitInstruction d cfg pk commitment =
     \<lparr>program_id = fromHex d (VITE_PROGRAM_ID cfg),
      accounts =
        [\<lparr>pubkey = fromHex d pk, is_signer = True, is_writable = False\<rparr>,
         \<lparr>pubkey = fromHex d (VITE_WHEEL_STATE_ACCOUNT cfg), is_signer = False, is_writable = True\<rparr>],
      data = Buffer_concat [[1], commitment]\<rparr>"

definition revealInstruction :: "deps \<Rightarrow> config \<Rightarrow> string \<Rightarrow> bytes \<Rightarrow> Instruction" where
  "revealInstruction d cfg pk userSecret =
     \<lparr>program_id = fromHex d (VITE_PROGRAM_ID cfg),
      accounts =
        [\<lparr>pubkey = fromHex d pk, is_signer = True, is_writable = False\<rparr>,
         \<lparr>pubkey = fromHex d (VITE_WHEEL_STATE_ACCOUNT cfg), is_signer = False, is_writable = True\<rparr>,
         \<lparr>pubkey = fromHex d (VITE_RECENT_BLOCKHASHES cfg), is_signer = False, is_writable = False\<rparr>,
         \<lparr>pubkey = fromHex d (VITE_SLOT_INFO cfg), is_signer = False, is_writable = False\<rparr>],
      data = Buffer_concat [[2], userSecret]\<rparr>"

text \<open>
  How one call of \<^verbatim>\<open>spinWheel\<close> ends: the guard returned at once; the
  \<^verbatim>\<open>catch\<close> block ran; the body ran to its end (the 10 s timer that stops the
  wheel is then pending); or the state updater read \<^verbatim>\<open>wheelData[prizeNumber]\<close>
  out of range, which throws while React renders, outside the \<^verbatim>\<open>try\<close>.
\<close>

datatype spin_outcome = Rejected | Failed error | Completed | Render_error

definition set_isSpinning :: "bool \<Rightarrow> app_state \<Rightarrow> app_state" where
  "set_isSpinning b st = st\<lparr>wheelState := (wheelState st)\<lparr>isSpinning := b\<rparr>\<rparr>"

text \<open>
  The placeholder draw: \<^verbatim>\<open>Math.floor(Math.random() * wheelData.length)\<close>, then
  \<^verbatim>\<open>prizeNumber\<close> and \<^verbatim>\<open>currentPrize: wheelData[prizeNumber].option\<close> are
  stored.
\<close>

definition draw_prize :: "wheel_entry list \<Rightarrow> rat \<Rightarrow> app_state \<Rightarrow> app_state \<times> spin_outcome" where
  "draw_prize wd r st =
     (let n = \<lfloor>double_mult r (of_nat (length wd))\<rfloor>
      in if 0 \<le> n \<and> n < int (length wd)
         then (st\<lparr>wheelState := (wheelState st)\<lparr>prizeNumber := n,
                      currentPrize := Some (option (wd ! nat n))\<rparr>\<rparr>, Completed)
         else (st, Render_error))"

text \<open>
  The guard of \<^verbatim>\<open>spinWheel\<close> is
  \<^verbatim>\<open>if (!sdk || !walletAddress || !publicKey || wheelState.isSpinning) return\<close>;
  \<open>spinnable\<close> is the condition under which the call goes on.
\<close>

definition spinnable :: "app_state \<Rightarrow> bool" where
  "spinnable st \<longleftrightarrow>
     sdk st \<and> \<not> falsy (walletAddress st) \<and> \<not> falsy (publicKey st) \<and> \<not> isSpinning (wheelState st)"

text \<open>
  \<^verbatim>\<open>spinWheel\<close> of the current front end. The sound effects of the page are left
  out. The state returned after \<open>Completed\<close> still has \<open>isSpinning\<close> set: the timer
  callback \<open>animation_timeout\<close> clears it 10 s later.
\<close>

definition spinWheel ::
  "deps \<Rightarrow> config \<Rightarrow> spin_env \<Rightarrow> app_state \<Rightarrow> app_state \<times> event list \<times> spin_outcome" where
  "spinWheel d cfg env st =
     (case (walletAddress st, publicKey st) of
        (Some wa, Some pk) \<Rightarrow>
          if \<not> sdk st \<or> wa = [] \<or> pk = [] \<or> isSpinning (wheelState st)
          then (st, [], Rejected)
          else
            (let st1 = set_isSpinning True st;
                 userSecret = getRandomValues (entropy env) 32;
                 commitment = sha256 userSecret;
                 commitIx = commitInstruction d cfg pk commitment;
                 (ev1, r1) = sendTransaction d (commit_wallet env) (commit_rpc env) wa pk commitIx
             in case r1 of
                  Inl e \<Rightarrow> (set_isSpinning False st1, Built commitIx # ev1, Failed e)
                | Inr commitTxId \<Rightarrow>
                    (let revealIx = revealInstruction d cfg pk userSecret;
                         (ev2, r2) =
                           sendTransaction d (reveal_wallet env) (reveal_rpc env) wa pk revealIx
                     in case r2 of
                          Inl e \<Rightarrow>
                            (set_isSpinning False st1,
                             Built commitIx # ev1 @ Built revealIx # ev2, Failed e)
                        | Inr revealTxId \<Rightarrow>
                            (let (st2, out) = draw_prize wheelData (math_random env) st1
                             in (st2, Built commitIx # ev1 @ Built revealIx # ev2, out))))
      | _ \<Rightarrow> (st, [], Rejected))"

text \<open>
  What a completed draw leaves in the state: a prize number that is an index of the wheel
  data, and the option of the entry at that index as the current prize.
\<close>

definition prize_drawn :: "wheel_entry list \<Rightarrow> app_state \<Rightarrow> bool" where
  "prize_drawn wd st \<longleftrightarrow>
     0 \<le> prizeNumber (wheelState st) \<and> prizeNumber (wheelState st) < int (length wd) \<and>
     currentPrize (wheelState st) = Some (option (wd ! nat (prizeNumber (wheelState st)))) \<and>
     currentPrize (wheelState st) \<in> Some ` option ` set wd"


text \<open>The discriminant of an instruction is the first byte of its data.\<close>

definition is_CommitSpin :: "Instruction \<Rightarrow> bool" where
  "is_CommitSpin i = (case data i of [] \<Rightarrow> False | b # _ \<Rightarrow> b = 1)"

definition is_RevealSpin :: "Instruction \<Rightarrow> bool" where
  "is_RevealSpin i = (case data i of [] \<Rightarrow> False | b # _ \<Rightarrow> b = 2)"

text \<open>The instructions a trace builds, and the ones it hands to the endpoint.\<close>

definition built :: "event list \<Rightarrow> Instruction list" where
  "built tr = concat (map (\<lambda>e. case e of Built i \<Rightarrow> [i] | _ \<Rightarrow> []) tr)"

definition submitted :: "event list \<Rightarrow> Instruction list" where
  "submitted tr =
     concat (map (\<lambda>e. case e of Submitted tx \<Rightarrow> instructions (message tx) | _ \<Rightarrow> []) tr)"

section \<open>A session: spins with their suspension points\<close>

text \<open>
  \<^verbatim>\<open>spinWheel\<close> is an \<^verbatim>\<open>async\<close> function: between its start and its end the
  page goes on receiving clicks. A session keeps the application state, the spins that
  have passed the guard and have not ended yet, each with the values its closure holds,
  and the trace so far. Its inputs are the events of the page: a click on the spin
  button (with the entropy that spin would draw), the settling of the commit or of the
  reveal \<^verbatim>\<open>sendTransaction\<close> of a spin in flight, and the 10 s timer of a spin whose
  wheel is turning. A click runs the handler of the state as last rendered; the state
  updates are the functional ones of the source (\<^verbatim>\<open>prev => ...\<close>), applied to the
  current state.
\<close>

datatype phase = Awaiting_commit | Awaiting_reveal | Animating

record attempt =
  held_address :: string
  held_key :: string
  held_secret :: bytes
  phase :: phase

record session =
  app :: app_state
  attempts :: "attempt list"
  history :: "event list"

datatype input =
    Spin_request "nat \<Rightarrow> byte"
  | Commit_settled nat wallet_reply "error + string"
  | Reveal_settled nat wallet_reply "error + string" rat
  | Animation_over nat

definition session_start :: "app_state \<Rightarrow> session" where
  "session_start st = \<lparr>app = st, attempts = [], history = []\<rparr>"

definition drop_attempt :: "nat \<Rightarrow> attempt list \<Rightarrow> attempt list" where
  "drop_attempt i as = take i as @ drop (Suc i) as"

definition step :: "deps \<Rightarrow> config \<Rightarrow> session \<Rightarrow> input \<Rightarrow> session" where
  "step d cfg s inp =
     (case inp of
        Spin_request src \<Rightarrow>
          (case (walletAddress (app s), publicKey (app s)) of
             (Some wa, Some pk) \<Rightarrow>
               if \<not> sdk (app s) \<or> wa = [] \<or> pk = [] \<or> isSpinning (wheelState (app s)) then s
               else
                 (let userSecret = getRandomValues src 32;
                      commitIx = commitInstruction d cfg pk (sha256 userSecret)
                  in s\<lparr>app := set_isSpinning True (app s),
                        attempts := attempts s @
                          [\<lparr>held_address = wa, held_key = pk, held_secret = userSecret,
                            phase = Awaiting_commit\<rparr>],
                        history := history s @ [Built commitIx]\<rparr>)
           | _ \<Rightarrow> s)
      | Commit_settled i w rpc \<Rightarrow>
          if i < length (attempts s) \<and> phase (attempts s ! i) = Awaiting_commit then
            (let a = attempts s ! i;
                 commitIx = commitInstruction d cfg (held_key a) (sha256 (held_secret a));
                 (ev, r) = sendTransaction d w rpc (held_address a) (held_key a) commitIx
             in case r of
                  Inl e \<Rightarrow>
                    s\<lparr>app := set_isSpinning False (app s),
                      attempts := drop_attempt i (attempts s),
                      history := history s @ ev\<rparr>
                | Inr commitTxId \<Rightarrow>
                    s\<lparr>attempts := (attempts s)[i := a\<lparr>phase := Awaiting_reveal\<rparr>],
                      history := history s @ ev @
                        [Built (revealInstruction d cfg (held_key a) (held_secret a))]\<rparr>)
          else s
      | Reveal_settled i w rpc rnd \<Rightarrow>
          if i < length (attempts s) \<and> phase (attempts s ! i) = Awaiting_reveal then
            (let a = attempts s ! i;
                 revealIx = revealInstruction d cfg (held_key a) (held_secret a);
                 (ev, r) = sendTransaction d w rpc (held_address a) (held_key a) revealIx
             in case r of
                  Inl e \<Rightarrow>
                    s\<lparr>app := set_isSpinning False (app s),
                      attempts := drop_attempt i (attempts s),
                      history := history s @ ev\<rparr>
                | Inr revealTxId \<Rightarrow>
                    (let (st2, out) = draw_prize wheelData rnd (app s)
                     in if out = Completed
                        then s\<lparr>app := st2,
                               attempts := (attempts s)[i := a\<lparr>phase := Animating\<rparr>],
                               history := history s @ ev\<rparr>
                        else s\<lparr>attempts := drop_attempt i (attempts s),
                               history := history s @ ev\<rparr>))
          else s
      | Animation_over i \<Rightarrow>
          if i < length (attempts s) \<and> phase (attempts s ! i) = Animating then
            s\<lparr>app := set_isSpinning False (app s), attempts := drop_attempt i (attempts s)\<rparr>
          else s)"

definition run_session :: "deps \<Rightarrow> config \<Rightarrow> session \<Rightarrow> input list \<Rightarrow> session" where
  "run_session d cfg s inputs = foldl (step d cfg) s inputs"

text \<open>
  The invariant of a session: at most one spin is in flight, and while one is, the page
  shows the wheel as spinning.
\<close>

definition one_in_flight :: "session \<Rightarrow> bool" where
  "one_in_flight s \<longleftrightarrow>
     length (attempts s) \<le> 1 \<and> (attempts s = [] \<or> isSpinning (wheelState (app s)))"

section \<open>Earlier front ends\<close>

text \<open>
  The tree holds earlier versions of the front end beside the current one. Two of them
  are modelled: the one that signs the commit message itself and signs a literal string
  for the reveal (\<open>spinWheel_inline\<close>), and the first one, which sends a single
  instruction (\<open>spinWheel_single\<close>, \<^verbatim>\<open>app/frontend/src/App.jsx\<close>).
\<close>

text \<open>
  The commit callback of \<open>spinWheel_inline\<close>:
  \<^verbatim>\<open>commitSignature = new Uint8Array(Buffer.from(response, 'base64')).slice(2)\<close>.
\<close>

definition inline_commit_onFinish :: "deps \<Rightarrow> string option \<Rightarrow> error + bytes" where
  "inline_commit_onFinish d response =
     (case response of
        None \<Rightarrow> Inl No_signature_returned
      | Some r \<Rightarrow> if r = [] then Inl No_signature_returned else Inr (drop 2 (base64 d r)))"

text \<open>
  The reveal callback of \<open>spinWheel_inline\<close> and the callback of
  \<open>spinWheel_single\<close>: \<^verbatim>\<open>Uint8Array.from(Buffer.from(response, 'base64'))\<close>, the
  decoded response as it is.
\<close>

definition onFinish_unstripped :: "deps \<Rightarrow> string option \<Rightarrow> error + bytes" where
  "onFinish_unstripped d response =
     (case response of
        None \<Rightarrow> Inl No_signature_returned
      | Some r \<Rightarrow> if r = [] then Inl No_signature_returned else Inr (base64 d r))"

definition commitInstruction_inline :: "deps \<Rightarrow> config \<Rightarrow> string \<Rightarrow> bytes \<Rightarrow> Instruction" where
  "commitInstruction_inline d cfg pk commitment =
     \<lparr>program_id = fromHex d (VITE_PROGRAM_ID cfg),
      accounts = [\<lparr>pubkey = fromHex d pk, is_signer = True, is_writable = False\<rparr>],
      data = Buffer_concat [[1], commitment]\<rparr>"

definition revealInstruction_inline :: "deps \<Rightarrow> config \<Rightarrow> string \<Rightarrow> bytes \<Rightarrow> Instruction" where
  "revealInstruction_inline d cfg pk userSecret =
     \<lparr>program_id = fromHex d (VITE_PROGRAM_ID cfg),
      accounts = [\<lparr>pubkey = fromHex d pk, is_signer = True, is_writable = False\<rparr>],
      data = Buffer_concat [[2], userSecret]\<rparr>"

text \<open>
  \<open>spinWheel_inline\<close>: the commit transaction is built from whatever the callback
  left in \<^verbatim>\<open>commitSignature\<close>, without a check; the reveal signature is checked
  (\<^verbatim>\<open>if (!revealSignature) throw\<close>) and the reveal instruction is built after it.
\<close>

definition spinWheel_inline ::
  "deps \<Rightarrow> config \<Rightarrow> spin_env \<Rightarrow> app_state \<Rightarrow> app_state \<times> event list \<times> spin_outcome" where
  "spinWheel_inline d cfg env st =
     (case (walletAddress st, publicKey st) of
        (Some wa, Some pk) \<Rightarrow>
          if \<not> sdk st \<or> wa = [] \<or> pk = [] \<or> isSpinning (wheelState st)
          then (st, [], Rejected)
          else
            (let st1 = set_isSpinning True st;
                 userSecret = getRandomValues (entropy env) 32;
                 commitment = sha256 userSecret;
                 commitIx = commitInstruction_inline d cfg pk commitment;
                 messageObj = \<lparr>signers = [fromHex d pk], instructions = [commitIx]\<rparr>;
                 messageHash = hash d messageObj;
                 ev0 = [Built commitIx, Sign_requested (Hash_hex messageHash) wa]
             in case signMessage (inline_commit_onFinish d) User_cancelled_signing (commit_wallet env) of
                  Inl e \<Rightarrow> (set_isSpinning False st1, ev0, Failed e)
                | Inr commitSignature \<Rightarrow>
                    (let commitTx =
                           \<lparr>version = 0, signatures = [commitSignature], message = messageObj\<rparr>;
                         ev1 = ev0 @ [Submitted commitTx]
                     in case commit_rpc env of
                          Inl e \<Rightarrow> (set_isSpinning False st1, ev1, Failed e)
                        | Inr commitTxId \<Rightarrow>
                            (let ev2 = ev1 @ [Sign_requested (Literal ''Reveal wheel spin'') wa]
                             in case signMessage (onFinish_unstripped d) User_cancelled_signing
                                       (reveal_wallet env) of
                                  Inl e \<Rightarrow> (set_isSpinning False st1, ev2, Failed e)
                                | Inr None \<Rightarrow>
                                    (set_isSpinning False st1, ev2,
                                     Failed No_reveal_signature_returned_from_wallet)
                                | Inr (Some revealSignature) \<Rightarrow>
                                    (let revealIx = revealInstruction_inline d cfg pk userSecret;
                                         revealTx =
                                           \<lparr>version = 0, signatures = [Some revealSignature],
                                            message = \<lparr>signers = [fromHex d pk],
                                                       instructions = [revealIx]\<rparr>\<rparr>;
                                         ev3 = ev2 @ [Built revealIx, Submitted revealTx]
                                     in case reveal_rpc env of
                                          Inl e \<Rightarrow> (set_isSpinning False st1, ev3, Failed e)
                                        | Inr revealTxId \<Rightarrow>
                                            (let (st2, out) =
                                                   draw_prize wheelData (math_random env) st1
                                             in (st2, ev3, out))))))
      | _ \<Rightarrow> (st, [], Rejected))"

definition wheelData_single :: "wheel_entry list" where
  "wheelData_single =
     [\<lparr>option = ''Prize 1'', backgroundColor = ''#ff8f43'', textColor = ''white''\<rparr>,
      \<lparr>option = ''Prize 2'', backgroundColor = ''#70bbe0'', textColor = ''white''\<rparr>,
      \<lparr>option = ''Prize 3'', backgroundColor = ''#ff5252'', textColor = ''white''\<rparr>]"

record single_env =
  spin_wallet :: wallet_reply
  spin_rpc :: "error + string"
  spin_random :: rat

definition spinInstruction_single :: "deps \<Rightarrow> config \<Rightarrow> string \<Rightarrow> Instruction" where
  "spinInstruction_single d cfg pk =
     \<lparr>program_id = fromHex d (VITE_PROGRAM_ID cfg),
      accounts = [\<lparr>pubkey = fromHex d pk, is_signer = True, is_writable = False\<rparr>],
      data = [1]\<rparr>"

definition spinWheel_single ::
  "deps \<Rightarrow> config \<Rightarrow> single_env \<Rightarrow> app_state \<Rightarrow> app_state \<times> event list \<times> spin_outcome" where
  "spinWheel_single d cfg env st =
     (case (walletAddress st, publicKey st) of
        (Some wa, Some pk) \<Rightarrow>
          if \<not> sdk st \<or> wa = [] \<or> pk = [] \<or> isSpinning (wheelState st)
          then (st, [], Rejected)
          else
            (let st1 = set_isSpinning True st;
                 ev0 = [Sign_requested (Literal ''Spin the wheel!'') wa]
             in case signMessage (onFinish_unstripped d) User_cancelled_signing (spin_wallet env) of
                  Inl e \<Rightarrow> (set_isSpinning False st1, ev0, Failed e)
                | Inr None \<Rightarrow> (set_isSpinning False st1, ev0, Failed No_signature_returned_from_wallet)
                | Inr (Some final_signature) \<Rightarrow>
                    (let ix = spinInstruction_single d cfg pk;
                         tx = \<lparr>version = 0, signatures = [Some final_signature],
                               message = \<lparr>signers = [fromHex d pk], instructions = [ix]\<rparr>\<rparr>;
                         ev1 = ev0 @ [Built ix, Submitted tx]
                     in case spin_rpc env of
                          Inl e \<Rightarrow> (set_isSpinning False st1, ev1, Failed e)
                        | Inr txid \<Rightarrow>
                            (let (st2, out) = draw_prize wheelData_single (spin_random env) st1
                             in (st2, ev1, out))))
      | _ \<Rightarrow> (st, [], Rejected))"

text \<open>The signatures of the transactions a trace hands to the endpoint, in order.\<close>

definition submitted_signatures :: "event list \<Rightarrow> bytes option list" where
  "submitted_signatures tr =
     concat (map (\<lambda>e. case e of Submitted tx \<Rightarrow> signatures tx | _ \<Rightarrow> []) tr)"

section \<open>Borsh encoding\<close>

text \<open>
  \<^verbatim>\<open>borsh.serialize\<close> and \<^verbatim>\<open>borsh.deserialize\<close> are the library's; they are
  modelled by the format they implement. A \<^verbatim>\<open>u32\<close> is four bytes, least significant
  first; a string is the \<^verbatim>\<open>u32\<close> count of its UTF-8 bytes, then the bytes; an array
  is the \<^verbatim>\<open>u32\<close> count of its elements, then the elements; a struct is its fields in
  the order of the schema. A string is represented by its UTF-8 bytes
  (\<^typ>\<open>string\<close>, one \<^typ>\<open>char\<close> a byte).
\<close>

definition le32 :: "nat \<Rightarrow> bytes" where
  "le32 n =
     (let w = (of_nat n :: u32)
      in [ucast w, ucast (drop_bit 8 w), ucast (drop_bit 16 w), ucast (drop_bit 24 w)])"

definition encode_string :: "string \<Rightarrow> bytes" where
  "encode_string s = le32 (length s) @ map of_char s"

definition encode_u8 :: "byte \<Rightarrow> bytes" where
  "encode_u8 b = [b]"

definition encode_array :: "('a \<Rightarrow> bytes) \<Rightarrow> 'a list \<Rightarrow> bytes" where
  "encode_array enc xs = le32 (length xs) @ concat (map enc xs)"

text \<open>
  A decoder consumes a prefix of the buffer and returns the value with the rest, or
  \<open>None\<close> where the library throws because the buffer is too short.
\<close>

definition decode_u8 :: "bytes \<Rightarrow> (byte \<times> bytes) option" where
  "decode_u8 bs = (case bs of [] \<Rightarrow> None | b # rest \<Rightarrow> Some (b, rest))"

definition decode_u32 :: "bytes \<Rightarrow> (nat \<times> bytes) option" where
  "decode_u32 bs =
     (case bs of
        b0 # b1 # b2 # b3 # rest \<Rightarrow>
          Some (unat b0 + 256 * unat b1 + 65536 * unat b2 + 16777216 * unat b3, rest)
      | _ \<Rightarrow> None)"

definition decode_bool :: "bytes \<Rightarrow> (bool \<times> bytes) option" where
  "decode_bool bs = (case decode_u8 bs of None \<Rightarrow> None | Some (b, rest) \<Rightarrow> Some (0 < unat b, rest))"

definition decode_string :: "bytes \<Rightarrow> (string \<times> bytes) option" where
  "decode_string bs =
     (case decode_u32 bs of
        None \<Rightarrow> None
      | Some (n, rest) \<Rightarrow>
          if length rest < n then None
          else Some (map (\<lambda>b. char_of (unat b)) (take n rest), drop n rest))"

primrec decode_items :: "(bytes \<Rightarrow> ('a \<times> bytes) option) \<Rightarrow> nat \<Rightarrow> bytes \<Rightarrow> ('a list \<times> bytes) option" where
  "decode_items dec 0 bs = Some ([], bs)"
| "decode_items dec (Suc n) bs =
     (case dec bs of
        None \<Rightarrow> None
      | Some (x, rest) \<Rightarrow>
          (case decode_items dec n rest of
             None \<Rightarrow> None
           | Some (xs, rest') \<Rightarrow> Some (x # xs, rest')))"

definition decode_array :: "(bytes \<Rightarrow> ('a \<times> bytes) option) \<Rightarrow> bytes \<Rightarrow> ('a list \<times> bytes) option" where
  "decode_array dec bs =
     (case decode_u32 bs of None \<Rightarrow> None | Some (n, rest) \<Rightarrow> decode_items dec n rest)"

text \<open>
  The JavaScript library's \<^verbatim>\<open>decode_string\<close> (borsh 2.0.0) does more than take the
  bytes: it turns them into code points and builds a string from these. Its loop reads a
  lead byte and, by the range of the lead byte, none, one, two or three further bytes
  (\<^verbatim>\<open>buffer[++i] & 0x3F\<close>, which is 0 past the end of the buffer); the pieces are
  put together with shifts and \<^verbatim>\<open>|\<close>, and as their bits do not overlap, by sums
  here. No byte is checked to be a continuation byte.
\<close>

definition continuation :: "bytes \<Rightarrow> nat \<Rightarrow> nat" where
  "continuation bs i = (if i < length bs then unat (bs ! i) mod 64 else 0)"

fun code_points :: "bytes \<Rightarrow> nat list" where
  "code_points [] = []"
| "code_points (b # bs) =
     (if unat b < 128 then unat b # code_points bs
      else if unat b < 224 then
        (64 * (unat b mod 32) + continuation bs 0) # code_points (drop 1 bs)
      else if unat b < 240 then
        (4096 * (unat b mod 16) + 64 * continuation bs 0 + continuation bs 1)
          # code_points (drop 2 bs)
      else
        (262144 * (unat b mod 8) + 4096 * continuation bs 0 + 64 * continuation bs 1
           + continuation bs 2) # code_points (drop 3 bs))"

text \<open>
  \<^verbatim>\<open>String.fromCodePoint(...codePoints)\<close> throws a \<^verbatim>\<open>RangeError\<close> for a code
  point above \<^verbatim>\<open>0x10FFFF\<close>, which a lead byte of 244 or more can give.
\<close>

definition decode_js_string :: "bytes \<Rightarrow> (nat list \<times> bytes) option" where
  "decode_js_string bs =
     (case decode_u32 bs of
        None \<Rightarrow> None
      | Some (n, rest) \<Rightarrow>
          if length rest < n then None
          else
            (let codePoints = code_points (take n rest)
             in if list_ex (\<lambda>c. 1114111 < c) codePoints then None
                else Some (codePoints, drop n rest)))"

section \<open>The wheel state reader\<close>

text \<open>
  \<^verbatim>\<open>checkWheelState\<close> reads the wheel-state account and deserializes its data with
  the schema \<^verbatim>\<open>{initialized: 'bool', prizes: array of string, probabilities: array of u8}\<close>.
  \<open>deserialize_WheelState\<close> is the library's decoder for this schema as borsh 2.0.0
  implements it: the fields in order, the strings through \<^verbatim>\<open>decode_string\<close> of the
  library; bytes after the last field are not looked at.
\<close>

definition deserialize_WheelState :: "bytes \<Rightarrow> WheelState option" where
  "deserialize_WheelState bs =
     (case decode_bool bs of
        None \<Rightarrow> None
      | Some (i, rest1) \<Rightarrow>
          (case decode_array decode_js_string rest1 of
             None \<Rightarrow> None
           | Some (ps, rest2) \<Rightarrow>
               (case decode_array decode_u8 rest2 of
                  None \<Rightarrow> None
                | Some (qs, rest3) \<Rightarrow>
                    Some \<lparr>initialized = i, prizes = ps, probabilities = qs\<rparr>)))"

text \<open>
  What \<^verbatim>\<open>sdk.readAccountInfo\<close> does is an input: it throws, or it returns
  \<^verbatim>\<open>null\<close> or an object whose \<^verbatim>\<open>data\<close> is a byte array or is missing. A byte
  array is an object, so \<^verbatim>\<open>accountInfo.data\<close> is truthy even when it is empty.
\<close>

record AccountInfo =
  info_data :: "bytes option"

type_synonym account_read = "error + AccountInfo option"

text \<open>
  The result is the new state and what the call returns to its caller: \<open>Inl\<close> would
  be an exception leaving the function, \<open>Inr\<close> is its return value (the raw bytes, or
  \<^verbatim>\<open>null\<close>). The inner \<^verbatim>\<open>try\<close> holds the call of \<^verbatim>\<open>borsh.deserialize\<close>
  and \<^verbatim>\<open>setIsInitialized(wheelState.initialized)\<close>; its \<^verbatim>\<open>catch\<close> takes every
  exception of the library alike.
\<close>

definition checkWheelState ::
  "deps \<Rightarrow> config \<Rightarrow> account_read \<Rightarrow> app_state \<Rightarrow> app_state \<times> (error + bytes option)" where
  "checkWheelState d cfg rd st =
     (if \<not> sdk st then (st, Inr None)
      else
        (case rd of
           Inl err \<Rightarrow> (st\<lparr>isInitialized := False\<rparr>, Inr None)
         | Inr None \<Rightarrow> (st\<lparr>isInitialized := False\<rparr>, Inr None)
         | Inr (Some accountInfo) \<Rightarrow>
             (case info_data accountInfo of
                None \<Rightarrow> (st\<lparr>isInitialized := False\<rparr>, Inr None)
              | Some bs \<Rightarrow>
                  (case deserialize d bs of
                     None \<Rightarrow> (st\<lparr>isInitialized := False\<rparr>, Inr (Some bs))
                   | Some ws \<Rightarrow> (st\<lparr>isInitialized := initialized ws\<rparr>, Inr (Some bs))))))"

section \<open>\<^verbatim>\<open>initializeWheel\<close>\<close>

text \<open>
  \<^verbatim>\<open>new Uint8Array(probabilities)\<close> converts each number to a byte modulo 256.
\<close>

definition Uint8Array_from :: "int list \<Rightarrow> bytes" where
  "Uint8Array_from ns = map of_int ns"

text \<open>
  The instruction data of \<^verbatim>\<open>initializeWheel\<close>: the variant byte 0, then the Borsh
  struct \<^verbatim>\<open>{prizes, probabilities}\<close>.
\<close>

definition instructionData :: "string list \<Rightarrow> int list \<Rightarrow> bytes" where
  "instructionData ps qs =
     Buffer_concat
       [[0], encode_array encode_string ps @ encode_array encode_u8 (Uint8Array_from qs)]"

definition initInstruction :: "deps \<Rightarrow> config \<Rightarrow> string \<Rightarrow> bytes \<Rightarrow> Instruction" where
  "initInstruction d cfg pk idata =
     \<lparr>program_id = fromHex d (VITE_PROGRAM_ID cfg),
      accounts =
        [\<lparr>pubkey = fromHex d (VITE_WHEEL_STATE_ACCOUNT cfg), is_signer = False, is_writable = True\<rparr>,
         \<lparr>pubkey = fromHex d pk, is_signer = True, is_writable = True\<rparr>],
      data = idata\<rparr>"

record init_env =
  init_read :: account_read
  init_wallet :: wallet_reply
  init_rpc :: "error + string"
  init_processed :: "error + unit"
  final_read :: account_read

text \<open>
  \<^verbatim>\<open>initializeWheel\<close> takes no argument: it encodes
  \<^verbatim>\<open>prizes = wheelData.map(data => data.option)\<close> and
  \<^verbatim>\<open>probabilities = [34, 33, 33]\<close>. Every exception inside the \<^verbatim>\<open>try\<close> is
  logged and thrown again.
\<close>

definition initializeWheel ::
  "deps \<Rightarrow> config \<Rightarrow> init_env \<Rightarrow> app_state \<Rightarrow> app_state \<times> event list \<times> (error + unit)" where
  "initializeWheel d cfg env st =
     (case (walletAddress st, publicKey st) of
        (Some wa, Some pk) \<Rightarrow>
          if \<not> sdk st \<or> wa = [] \<or> pk = [] then (st, [], Inr ())
          else
            (case init_read env of
               Inl e \<Rightarrow> (st, [], Inl e)
             | Inr accountInfo \<Rightarrow>
                 (let ix = initInstruction d cfg pk
                             (instructionData (map option wheelData) [34, 33, 33]);
                      (ev, r) = sendTransaction d (init_wallet env) (init_rpc env) wa pk ix
                  in case r of
                       Inl e \<Rightarrow> (st, Built ix # ev, Inl e)
                     | Inr txId \<Rightarrow>
                         (case init_processed env of
                            Inl e \<Rightarrow> (st, Built ix # ev, Inl e)
                          | Inr processedTx \<Rightarrow>
                              (let (st', finalState) = checkWheelState d cfg (final_read env) st
                               in (st', Built ix # ev, Inr ())))))
      | _ \<Rightarrow> (st, [], Inr ()))"

text \<open>
  Modelled from the spec: the decoder of InitializeWheel instruction data. It belongs to
  the remote program, whose source is not in the tree; the spec gives the wire format as
  \<^verbatim>\<open>data[0]\<close> = discriminant 0, then the length-prefixed string array of prizes, then
  the length-prefixed byte array of probabilities.
\<close>

definition decode_InitializeWheel :: "bytes \<Rightarrow> (string list \<times> int list) option" where
  "decode_InitializeWheel bs =
     (case bs of
        [] \<Rightarrow> None
      | disc # payload \<Rightarrow>
          if disc \<noteq> 0 then None
          else
            (case decode_array decode_string payload of
               None \<Rightarrow> None
             | Some (ps, rest) \<Rightarrow>
                 (case decode_array decode_u8 rest of
                    None \<Rightarrow> None
                  | Some (qs, rest') \<Rightarrow>
                      if rest' = [] then Some (ps, map uint qs) else None)))"

section \<open>A concrete environment\<close>

text \<open>
  Instances of the external functions, used to run the model on concrete inputs: a
  hexadecimal and a base64 decoder, a message hash over the signers and the
  instruction bytes, and the Borsh decoder of the wheel state.
\<close>

definition hex_digit :: "char \<Rightarrow> nat" where
  "hex_digit c =
     (let n = (of_char c :: nat)
      in if 48 \<le> n \<and> n \<le> 57 then n - 48
         else if 97 \<le> n \<and> n \<le> 102 then n - 87
         else if 65 \<le> n \<and> n \<le> 70 then n - 55 else 0)"

fun hex_decode :: "string \<Rightarrow> bytes" where
  "hex_decode (a # b # rest) = of_nat (16 * hex_digit a + hex_digit b) # hex_decode rest"
| "hex_decode _ = []"

definition b64_digit :: "char \<Rightarrow> nat option" where
  "b64_digit c =
     (let n = (of_char c :: nat)
      in if 65 \<le> n \<and> n \<le> 90 then Some (n - 65)
         else if 97 \<le> n \<and> n \<le> 122 then Some (n - 71)
         else if 48 \<le> n \<and> n \<le> 57 then Some (n + 4)
         else if n = 43 then Some 62
         else if n = 47 then Some 63 else None)"

fun b64_groups :: "nat list \<Rightarrow> bytes" where
  "b64_groups (a # b # c # e # rest) =
     [of_nat (4 * a + b div 16), of_nat (16 * (b mod 16) + c div 4), of_nat (64 * (c mod 4) + e)]
     @ b64_groups rest"
| "b64_groups [a, b, c] = [of_nat (4 * a + b div 16), of_nat (16 * (b mod 16) + c div 4)]"
| "b64_groups [a, b] = [of_nat (4 * a + b div 16)]"
| "b64_groups _ = []"

definition base64_decode :: "string \<Rightarrow> bytes" where
  "base64_decode s = b64_groups (concat (map (\<lambda>c. case b64_digit c of None \<Rightarrow> [] | Some v \<Rightarrow> [v]) s))"

definition example_deps :: deps where
  "example_deps =
     \<lparr>fromHex = hex_decode,
      hash = (\<lambda>m. sha256 (concat (signers m) @ concat (map (\<lambda>i. program_id i @ data i) (instructions m)))),
      base64 = base64_decode,
      deserialize = deserialize_WheelState\<rparr>"

definition example_config :: config where
  "example_config =
     \<lparr>VITE_PROGRAM_ID = ''a1a2'', VITE_WHEEL_STATE_ACCOUNT = ''b1b2'',
      VITE_RECENT_BLOCKHASHES = ''c1c2'', VITE_SLOT_INFO = ''d1d2''\<rparr>"

definition connected_state :: app_state where
  "connected_state =
     initial_state\<lparr>walletAddress := Some ''tb1qexample'', publicKey := Some ''0e0f'', sdk := True\<rparr>"

text \<open>A wallet response whose 66 decoded bytes are a 2-byte prefix and 64 further bytes.\<close>

definition example_response :: string where
  "example_response =
     ''AgABAgMEBQYHCAkKCwwNDg8QERITFBUWFxgZGhscHR4fICEiIyQlJicoKSorLC0uLzAxMjM0NTY3ODk6Ozw9Pj9A''"

definition env_ok :: spin_env where
  "env_ok =
     \<lparr>entropy = (\<lambda>i. of_nat (7 * i + 3)),
      commit_wallet = Finish (Some example_response), commit_rpc = Inr ''tx-commit'',
      reveal_wallet = Finish (Some example_response), reveal_rpc = Inr ''tx-reveal'',
      math_random = 1 / 2\<rparr>"

definition env_cancel :: spin_env where
  "env_cancel = env_ok\<lparr>commit_wallet := Cancel\<rparr>"

definition init_env_ok :: init_env where
  "init_env_ok =
     \<lparr>init_read = Inr None,
      init_wallet = Finish (Some example_response), init_rpc = Inr ''tx-init'',
      init_processed = Inr (), final_read = Inr None\<rparr>"

definition single_env_ok :: single_env where
  "single_env_ok =
     \<lparr>spin_wallet = Finish (Some example_response), spin_rpc = Inr ''tx-spin'',
      spin_random = 1 / 2\<rparr>"

definition env_second :: spin_env where
  "env_second = env_ok\<lparr>entropy := (\<lambda>i. of_nat (5 * i + 1))\<rparr>"


section \<open>Properties\<close>

subsection \<open>Rounding\<close>

text \<open>
  The double nearest to a positive number lies within half a unit in the last place of
  it, and that unit is at most \<open>2\<^sup>-\<^sup>5\<^sup>2\<close> times the number (or the subnormal
  spacing). This is what keeps the product of a double below 1 with a length below the
  length.
\<close>

lemma binade_le:
  assumes "0 < x"
  shows "2 powi binade x \<le> x"
proof (cases "1 \<le> x")
  case True
  then have pos: "0 < \<lfloor>x\<rfloor>" by simp
  from bitlen_bounds [OF pos] have b: "2 ^ nat (bitlen \<lfloor>x\<rfloor> - 1) \<le> \<lfloor>x\<rfloor>" by simp
  from pos have "1 \<le> bitlen \<lfloor>x\<rfloor>" by (auto simp: bitlen_alt_def)
  then have "(2::rat) powi binade x = 2 ^ nat (bitlen \<lfloor>x\<rfloor> - 1)"
    using True by (simp add: binade_def power_int_nonneg_exp)
  also have "\<dots> = of_int (2 ^ nat (bitlen \<lfloor>x\<rfloor> - 1))" by simp
  also have "\<dots> \<le> of_int \<lfloor>x\<rfloor>" using b by (simp only: of_int_le_iff)
  also have "\<dots> \<le> x" by simp
  finally show ?thesis .
next
  case False
  with assms have inv: "1 < 1 / x" by simp
  then have "1 < \<lceil>1 / x\<rceil>" by (simp add: less_ceiling_iff)
  then have pos: "0 < \<lceil>1 / x\<rceil> - 1" by simp
  define k where "k = bitlen (\<lceil>1 / x\<rceil> - 1)"
  from bitlen_bounds [OF pos] have "\<lceil>1 / x\<rceil> - 1 < 2 ^ nat k" by (simp add: k_def)
  then have "\<lceil>1 / x\<rceil> \<le> 2 ^ nat k" by simp
  then have "(of_int \<lceil>1 / x\<rceil> :: rat) \<le> of_int (2 ^ nat k)" by (simp only: of_int_le_iff)
  then have "(of_int \<lceil>1 / x\<rceil> :: rat) \<le> 2 ^ nat k" by simp
  with le_of_int_ceiling [of "1 / x"] have "1 / x \<le> 2 ^ nat k"
    by (rule order_trans)
  then have "1 / 2 ^ nat k \<le> x"
    using assms by (simp add: field_simps)
  moreover have "0 \<le> k" by (simp add: k_def bitlen_nonneg)
  then have "(2::rat) powi (- k) = 1 / 2 ^ nat k"
    by (simp add: power_int_def field_simps)
  ultimately show ?thesis
    using False by (simp add: binade_def k_def)
qed

lemma ulp_pos: "0 < ulp x"
  by (simp add: ulp_def)

lemma ulp_bound:
  assumes "0 < x"
  shows "ulp x \<le> x / 2 ^ 52 \<or> ulp x = 1 / 2 ^ 1074"
proof (cases "- 1022 \<le> binade x")
  case True
  then have "ulp x = 2 powi (binade x - 52)"
    by (simp add: ulp_def max_def)
  also have "\<dots> = 2 powi binade x / 2 ^ 52"
    by (simp add: power_int_diff)
  also have "\<dots> \<le> x / 2 ^ 52"
    using binade_le [OF assms] by (simp add: divide_right_mono)
  finally show ?thesis by simp
next
  case False
  then have "ulp x = 2 powi (- 1074)"
    by (simp add: ulp_def max_def)
  then show ?thesis
    by (simp add: power_int_minus_divide)
qed

lemma round_to_double_nonneg:
  assumes "0 \<le> x"
  shows "0 \<le> round_to_double x"
proof (cases "x = 0")
  case True
  then show ?thesis by (simp add: round_to_double_def)
next
  case False
  with assms have "0 \<le> x / ulp x"
    using ulp_pos [of x] by simp
  then have "0 \<le> \<lfloor>x / ulp x\<rfloor>" by simp
  then have "(0::rat) \<le> of_int \<lfloor>x / ulp x\<rfloor>" by simp
  then show ?thesis
    using ulp_pos [of x] False
    by (auto simp add: round_to_double_def Let_def intro!: mult_nonneg_nonneg add_nonneg_nonneg)
qed

lemma round_to_double_close:
  assumes "x \<noteq> 0"
  shows "round_to_double x - x \<le> ulp x / 2"
proof -
  define u q f where "u = ulp x" and "q = x / u" and "f = \<lfloor>q\<rfloor>"
  have u: "0 < u" by (simp add: u_def ulp_pos)
  then have qu: "q * u = x" by (simp add: q_def)
  have lo: "of_int f \<le> q" by (simp add: f_def)
  have rd: "round_to_double x =
      (if q - of_int f < 1 / 2 \<or> (q - of_int f = 1 / 2 \<and> even f)
       then of_int f * u else (of_int f + 1) * u)"
    using assms unfolding round_to_double_def Let_def u_def q_def f_def by (simp only: if_False)
  have "round_to_double x - x \<le> u / 2"
  proof (cases "q - of_int f < 1 / 2 \<or> (q - of_int f = 1 / 2 \<and> even f)")
    case True
    then have r: "round_to_double x = of_int f * u"
      by (simp only: rd if_True)
    have "of_int f * u \<le> q * u"
      using lo u by (simp add: mult_right_mono)
    with r qu u show ?thesis by linarith
  next
    case False
    then have r: "round_to_double x = (of_int f + 1) * u"
      by (simp only: rd if_False)
    from False have "1 / 2 \<le> q - of_int f" by auto
    then have "of_int f + 1 - q \<le> 1 / 2" by simp
    then have "(of_int f + 1 - q) * u \<le> 1 / 2 * u"
      using u by (simp only: mult_right_mono less_imp_le)
    then have "(of_int f + 1) * u - q * u \<le> u / 2"
      by (simp add: algebra_simps)
    with r qu show ?thesis by linarith
  qed
  then show ?thesis by (simp only: u_def)
qed

lemma double_mult_below:
  fixes r :: rat and n :: nat
  assumes r0: "0 \<le> r" and r1: "r \<le> 1 - 1 / 2 ^ 53" and n: "1 \<le> n"
  shows "0 \<le> double_mult r (of_nat n) \<and> double_mult r (of_nat n) < of_nat n"
proof -
  define y where "y = r * of_nat n"
  have y0: "0 \<le> y" using r0 by (simp add: y_def)
  have gap: "of_nat n / 2 ^ 53 \<le> of_nat n - y"
  proof -
    have "y \<le> (1 - 1 / 2 ^ 53) * of_nat n"
      unfolding y_def using r1 by (rule mult_right_mono) simp
    then show ?thesis by (simp add: algebra_simps)
  qed
  have n1: "(1::rat) \<le> of_nat n" using n by simp
  have below: "round_to_double y < of_nat n"
  proof (cases "y = 0")
    case True
    with n1 show ?thesis by (simp add: round_to_double_def)
  next
    case False
    with y0 have ypos: "0 < y" by simp
    have yn: "y < of_nat n"
    proof -
      have "0 < of_nat n / (2::rat) ^ 53" using n1 by simp
      with gap show ?thesis by linarith
    qed
    have "ulp y / 2 < of_nat n / 2 ^ 53"
    proof -
      from ulp_bound [OF ypos] show ?thesis
      proof
        assume "ulp y \<le> y / 2 ^ 52"
        then have "ulp y / 2 \<le> y / 2 ^ 53" by simp
        also have "\<dots> < of_nat n / 2 ^ 53"
          using yn by (simp add: divide_strict_right_mono)
        finally show ?thesis .
      next
        assume "ulp y = 1 / 2 ^ 1074"
        then have "ulp y / 2 = 1 / 2 ^ 1075" by simp
        also have "\<dots> < (1::rat) / 2 ^ 53" by simp
        also have "\<dots> \<le> of_nat n / 2 ^ 53"
          using n1 by (simp add: divide_right_mono)
        finally show ?thesis .
      qed
    qed
    with round_to_double_close [OF False] gap show ?thesis by linarith
  qed
  with round_to_double_nonneg [OF y0] show ?thesis
    by (simp add: double_mult_def y_def)
qed

lemma double_mult_half_three: "double_mult (1 / 2) 3 = 3 / 2"
  by code_simp

lemma floor_three_halves: "\<lfloor>3 / 2 :: rat\<rfloor> = 1"
  by (simp add: floor_eq_iff)

subsection \<open>Digest and entropy\<close>

text \<open>The digest of the three bytes \<^verbatim>\<open>abc\<close>, as the standard lists it.\<close>

lemma sha256_abc:
  "sha256 [97, 98, 99] =
     [186, 120, 22, 191, 143, 1, 207, 234, 65, 65, 64, 222, 93, 174, 34, 35,
      176, 3, 97, 163, 150, 23, 122, 156, 180, 16, 255, 97, 242, 0, 21, 173]"
  by code_simp

lemma sha256_length: "length (sha256 m) = 32"
  by (simp add: sha256_def be32_def Let_def split: prod.splits)


subsection \<open>Traces\<close>

lemma built_simps [simp]:
  "built [] = []" "built (Built i # tr) = i # built tr"
  "built (Sign_requested p a # tr) = built tr" "built (Submitted tx # tr) = built tr"
  "built (xs @ ys) = built xs @ built ys"
  by (simp_all add: built_def)

lemma submitted_simps [simp]:
  "submitted [] = []" "submitted (Built i # tr) = submitted tr"
  "submitted (Sign_requested p a # tr) = submitted tr"
  "submitted (Submitted tx # tr) = instructions (message tx) @ submitted tr"
  "submitted (xs @ ys) = submitted xs @ submitted ys"
  by (simp_all add: submitted_def)

lemma submitted_signatures_simps [simp]:
  "submitted_signatures [] = []" "submitted_signatures (Built i # tr) = submitted_signatures tr"
  "submitted_signatures (Sign_requested p a # tr) = submitted_signatures tr"
  "submitted_signatures (Submitted tx # tr) = signatures tx @ submitted_signatures tr"
  "submitted_signatures (xs @ ys) = submitted_signatures xs @ submitted_signatures ys"
  by (simp_all add: submitted_signatures_def)

lemma sendTransaction_built: "built (fst (sendTransaction d w rpc wa pk ix)) = []"
  by (simp add: sendTransaction_def signMessage_def sendTransaction_onFinish_def Let_def
      split: wallet_reply.splits option.splits sum.splits)

lemma sendTransaction_submitted:
  "submitted (fst (sendTransaction d w rpc wa pk ix)) = [] \<or>
   submitted (fst (sendTransaction d w rpc wa pk ix)) = [ix]"
  by (simp add: sendTransaction_def signMessage_def sendTransaction_onFinish_def Let_def
      split: wallet_reply.splits option.splits sum.splits)

lemma sendTransaction_fails:
  "w = Cancel \<or> w = Silent \<or> (\<exists>r. w = Finish r \<and> falsy r) \<or> isl rpc
     \<Longrightarrow> isl (snd (sendTransaction d w rpc wa pk ix))"
  by (auto simp add: sendTransaction_def signMessage_def sendTransaction_onFinish_def falsy_def Let_def
      split: wallet_reply.splits option.splits sum.splits)

lemma sendTransaction_cancel:
  "snd (sendTransaction d Cancel rpc wa pk ix) = Inl User_cancelled_signing"
  by (simp add: sendTransaction_def signMessage_def Let_def)

lemma sendTransaction_signature_stripped:
  assumes "s \<in> set (submitted_signatures (fst (sendTransaction d w rpc wa pk ix)))"
  shows "\<exists>r. w = Finish (Some r) \<and> s = Some (drop 2 (base64 d r))"
  using assms
  by (auto simp add: sendTransaction_def signMessage_def sendTransaction_onFinish_def Let_def
      split: wallet_reply.splits option.splits sum.splits if_splits)

text \<open>
  \<^verbatim>\<open>spinWheel\<close> by its guard: a state that is not \<open>spinnable\<close> is returned
  as it is; otherwise the body runs.
\<close>

lemma spinWheel_rejects:
  "\<not> spinnable st \<Longrightarrow> spinWheel d cfg env st = (st, [], Rejected)"
  by (auto simp add: spinWheel_def spinnable_def falsy_def split: option.splits)

lemma spinWheel_unfold:
  assumes "spinnable st"
  shows "spinWheel d cfg env st =
    (let wa = the (walletAddress st); pk = the (publicKey st);
         st1 = set_isSpinning True st;
         userSecret = getRandomValues (entropy env) 32;
         commitIx = commitInstruction d cfg pk (sha256 userSecret);
         c = sendTransaction d (commit_wallet env) (commit_rpc env) wa pk commitIx
     in case snd c of
          Inl e \<Rightarrow> (set_isSpinning False st1, Built commitIx # fst c, Failed e)
        | Inr _ \<Rightarrow>
           (let revealIx = revealInstruction d cfg pk userSecret;
                r = sendTransaction d (reveal_wallet env) (reveal_rpc env) wa pk revealIx
            in case snd r of
                 Inl e \<Rightarrow> (set_isSpinning False st1, Built commitIx # fst c @ Built revealIx # fst r, Failed e)
               | Inr _ \<Rightarrow> (fst (draw_prize wheelData (math_random env) st1),
                     Built commitIx # fst c @ Built revealIx # fst r,
                     snd (draw_prize wheelData (math_random env) st1))))"
  using assms
  by (auto simp add: spinWheel_def spinnable_def falsy_def Let_def split: option.splits prod.splits sum.splits)

lemma commit_is_CommitSpin [simp]:
  "is_CommitSpin (commitInstruction d cfg pk c)" "\<not> is_RevealSpin (commitInstruction d cfg pk c)"
  by (simp_all add: is_CommitSpin_def is_RevealSpin_def commitInstruction_def Buffer_concat_def)

lemma reveal_is_RevealSpin [simp]:
  "is_RevealSpin (revealInstruction d cfg pk s)" "\<not> is_CommitSpin (revealInstruction d cfg pk s)"
  by (simp_all add: is_CommitSpin_def is_RevealSpin_def revealInstruction_def Buffer_concat_def)

lemma restore_state: "\<not> isSpinning (wheelState st) \<Longrightarrow> set_isSpinning False (set_isSpinning True st) = st"
  by (simp add: set_isSpinning_def)

text \<open>
  The instructions of a spin that passed the guard: the commit instruction is built, and
  submitted if the wallet signed; the reveal instruction is built only after the commit
  transaction went through.
\<close>

lemma spin_trace_shape:
  assumes ok: "spinnable st" and run: "spinWheel d cfg env st = (st', tr, out)"
  defines "cix \<equiv> commitInstruction d cfg (the (publicKey st)) (sha256 (getRandomValues (entropy env) 32))"
    and "rix \<equiv> revealInstruction d cfg (the (publicKey st)) (getRandomValues (entropy env) 32)"
  shows "(built tr = [cix] \<or> built tr = [cix, rix]) \<and>
         (submitted tr = [] \<or> submitted tr = [cix] \<or> submitted tr = [cix, rix])"
proof -
  define wa pk where "wa = the (walletAddress st)" and "pk = the (publicKey st)"
  define c where "c = sendTransaction d (commit_wallet env) (commit_rpc env) wa pk cix"
  define r where "r = sendTransaction d (reveal_wallet env) (reveal_rpc env) wa pk rix"
  have bc: "built (fst c) = []" and br: "built (fst r) = []"
    unfolding c_def r_def by (rule sendTransaction_built)+
  have sc: "submitted (fst c) = [] \<or> submitted (fst c) = [cix]"
    unfolding c_def by (rule sendTransaction_submitted)
  have sr: "submitted (fst r) = [] \<or> submitted (fst r) = [rix]"
    unfolding r_def by (rule sendTransaction_submitted)
  have sc_ok: "submitted (fst c) = [cix]" if "snd c = Inr x" for x
    using that unfolding c_def
    by (auto simp add: sendTransaction_def signMessage_def sendTransaction_onFinish_def Let_def
        split: wallet_reply.splits option.splits sum.splits if_splits)
  from run have tr: "tr = Built cix # fst c \<or> (\<exists>x. snd c = Inr x \<and> tr = Built cix # fst c @ Built rix # fst r)"
    by (auto simp add: spinWheel_unfold [OF ok] Let_def c_def r_def cix_def rix_def wa_def pk_def
        split: sum.splits)
  then show ?thesis
  proof
    assume "tr = Built cix # fst c"
    with bc sc show ?thesis by auto
  next
    assume "\<exists>x. snd c = Inr x \<and> tr = Built cix # fst c @ Built rix # fst r"
    then obtain x where x: "snd c = Inr x" and t: "tr = Built cix # fst c @ Built rix # fst r"
      by blast
    from sc_ok [OF x] t bc br sr show ?thesis by auto
  qed
qed



lemma spinWheel_outcomes:
  assumes run: "spinWheel d cfg env st = (st', tr, out)"
  shows "out = Rejected \<or> (\<exists>e. out = Failed e) \<or>
         (st', out) = draw_prize wheelData (math_random env) (set_isSpinning True st)"
proof (cases "spinnable st")
  case False
  with run show ?thesis by (simp add: spinWheel_rejects)
next
  case True
  from run show ?thesis
    by (auto simp add: spinWheel_unfold [OF True] Let_def split: sum.splits)
qed

lemma spinWheel_single_outcomes:
  assumes run: "spinWheel_single d cfg env st = (st', tr, out)"
  shows "out = Rejected \<or> (\<exists>e. out = Failed e) \<or>
         (st', out) = draw_prize wheelData_single (spin_random env) (set_isSpinning True st)"
  using run
  by (auto simp add: spinWheel_single_def Let_def
      split: option.splits sum.splits if_splits prod.splits)

subsection \<open>Runs of the concrete environment\<close>

lemma example_response_decoded:
  "base64_decode example_response = [2, 0] @ map of_nat [1..<65]"
  by (simp add: base64_decode_def example_response_def b64_digit_def upt_rec)

lemma connected_spinnable: "spinnable connected_state"
  by (simp add: spinnable_def connected_state_def initial_state_def falsy_def)

lemma cancelled_run:
  "spinWheel example_deps example_config env_cancel connected_state =
     (connected_state,
      [Built (commitInstruction example_deps example_config ''0e0f''
                (sha256 (getRandomValues (entropy env_ok) 32))),
       Sign_requested
         (Hash_hex (hash example_deps
            \<lparr>signers = [[14, 15]],
             instructions = [commitInstruction example_deps example_config ''0e0f''
                (sha256 (getRandomValues (entropy env_ok) 32))]\<rparr>)) ''tb1qexample''],
      Failed User_cancelled_signing)"
  by (simp add: spinWheel_def connected_state_def initial_state_def env_cancel_def env_ok_def
      sendTransaction_def signMessage_def Let_def set_isSpinning_def example_deps_def hex_digit_def)

lemma completed_run_trace:
  "fst (snd (spinWheel example_deps example_config env_ok connected_state)) =
     (let secret = getRandomValues (entropy env_ok) 32;
          cix = commitInstruction example_deps example_config ''0e0f'' (sha256 secret);
          rix = revealInstruction example_deps example_config ''0e0f'' secret;
          cmsg = \<lparr>signers = [[14, 15]], instructions = [cix]\<rparr>;
          rmsg = \<lparr>signers = [[14, 15]], instructions = [rix]\<rparr>;
          sig = Some (map of_nat [1..<65])
      in [Built cix, Sign_requested (Hash_hex (hash example_deps cmsg)) ''tb1qexample'',
          Submitted \<lparr>version = 0, signatures = [sig], message = cmsg\<rparr>,
          Built rix, Sign_requested (Hash_hex (hash example_deps rmsg)) ''tb1qexample'',
          Submitted \<lparr>version = 0, signatures = [sig], message = rmsg\<rparr>])"
  by (simp add: spinWheel_def connected_state_def initial_state_def env_ok_def
      sendTransaction_def signMessage_def sendTransaction_onFinish_def Let_def set_isSpinning_def
      draw_prize_def wheelData_def
      example_deps_def hex_digit_def example_response_decoded [unfolded example_response_def]
      example_response_def)

lemma completed_run_state:
  "fst (spinWheel example_deps example_config env_ok connected_state) =
     connected_state\<lparr>wheelState :=
        \<lparr>isSpinning = True, currentPrize = Some ''Loser'', prizeNumber = 1\<rparr>\<rparr> \<and>
   snd (snd (spinWheel example_deps example_config env_ok connected_state)) = Completed"
  by (simp add: spinWheel_def connected_state_def initial_state_def env_ok_def
      sendTransaction_def signMessage_def sendTransaction_onFinish_def Let_def set_isSpinning_def
      draw_prize_def wheelData_def example_response_def floor_three_halves double_mult_half_three)



lemma single_run_state:
  "fst (spinWheel_single example_deps example_config single_env_ok connected_state) =
     connected_state\<lparr>wheelState :=
        \<lparr>isSpinning = True, currentPrize = Some ''Prize 2'', prizeNumber = 1\<rparr>\<rparr> \<and>
   snd (snd (spinWheel_single example_deps example_config single_env_ok connected_state)) = Completed"
  by (simp add: spinWheel_single_def connected_state_def initial_state_def single_env_ok_def
      signMessage_def onFinish_unstripped_def Let_def set_isSpinning_def
      draw_prize_def wheelData_single_def example_response_def floor_three_halves
      double_mult_half_three)

lemma inline_run_signatures:
  "submitted_signatures (fst (snd (spinWheel_inline example_deps example_config env_ok connected_state)))
     = [Some (drop 2 (base64_decode example_response)), Some (base64_decode example_response)]"
  by (simp add: spinWheel_inline_def connected_state_def initial_state_def env_ok_def
      signMessage_def inline_commit_onFinish_def onFinish_unstripped_def Let_def set_isSpinning_def
      draw_prize_def wheelData_def example_deps_def example_response_def
      floor_three_halves double_mult_half_three split: prod.splits)

lemma example_instructionData:
  "instructionData [''A'', ''B'', ''C''] [34, 33, 33] =
     [0, 3, 0, 0, 0, 1, 0, 0, 0, 65, 1, 0, 0, 0, 66, 1, 0, 0, 0, 67, 3, 0, 0, 0, 34, 33, 33]"
  by (simp add: instructionData_def Buffer_concat_def Uint8Array_from_def encode_array_def
      encode_string_def encode_u8_def le32_def)

lemma two_requests:
  "run_session example_deps example_config (session_start connected_state)
      [Spin_request (entropy env_ok), Spin_request (entropy env_second)]
   = run_session example_deps example_config (session_start connected_state)
      [Spin_request (entropy env_ok)] \<and>
   attempts (run_session example_deps example_config (session_start connected_state)
      [Spin_request (entropy env_ok)])
     = [\<lparr>held_address = ''tb1qexample'', held_key = ''0e0f'',
         held_secret = getRandomValues (entropy env_ok) 32, phase = Awaiting_commit\<rparr>] \<and>
   history (run_session example_deps example_config (session_start connected_state)
      [Spin_request (entropy env_ok)])
     = [Built (commitInstruction example_deps example_config ''0e0f''
          (sha256 (getRandomValues (entropy env_ok) 32)))]"
  by (simp add: run_session_def session_start_def step_def connected_state_def initial_state_def
      set_isSpinning_def Let_def)

subsection \<open>Secret, commitment and reveal of one spin\<close>





subsection \<open>Normalizing the wallet's signature\<close>

text \<open>
  In the current front end every signature goes through \<^verbatim>\<open>sendTransaction\<close>: each
  signature of a submitted transaction is the decoded wallet response without its first
  two bytes, 64 bytes when the response decodes to 66.
\<close>

lemma spinWheel_signatures_stripped:
  assumes run: "spinWheel d cfg env st = (st', tr, out)"
    and s: "s \<in> set (submitted_signatures tr)"
  shows "\<exists>r. (commit_wallet env = Finish (Some r) \<or> reveal_wallet env = Finish (Some r)) \<and>
           s = Some (drop 2 (base64 d r)) \<and>
           (length (base64 d r) = 66 \<longrightarrow> length (drop 2 (base64 d r)) = 64)"
proof (cases "spinnable st")
  case False
  with run s show ?thesis by (simp add: spinWheel_rejects)
next
  case True
  from run s have
    "s \<in> set (submitted_signatures (fst (sendTransaction d (commit_wallet env) (commit_rpc env)
          (the (walletAddress st)) (the (publicKey st))
          (commitInstruction d cfg (the (publicKey st)) (sha256 (getRandomValues (entropy env) 32)))))) \<or>
     s \<in> set (submitted_signatures (fst (sendTransaction d (reveal_wallet env) (reveal_rpc env)
          (the (walletAddress st)) (the (publicKey st))
          (revealInstruction d cfg (the (publicKey st)) (getRandomValues (entropy env) 32)))))"
    by (auto simp add: spinWheel_unfold [OF True] Let_def split: sum.splits)
  then show ?thesis
    using sendTransaction_signature_stripped by fastforce
qed

text \<open>
  Claim C2, at the input where the code departs from it. The wallet answers both signing
  requests with a response that decodes to 66 bytes, a 2-byte prefix and 64 further
  bytes. \<open>spinWheel_inline\<close> submits a commit transaction with a 64-byte signature and
  a reveal transaction with all 66 bytes; the current \<^verbatim>\<open>spinWheel\<close> submits 64 bytes
  in both.
\<close>

theorem inline_reveal_signature_unstripped:
  "length (base64 example_deps example_response) = 66 \<and>
   map (map_option length)
     (submitted_signatures
        (fst (snd (spinWheel_inline example_deps example_config env_ok connected_state))))
     = [Some 64, Some 66] \<and>
   map (map_option length)
     (submitted_signatures (fst (snd (spinWheel example_deps example_config env_ok connected_state))))
     = [Some 64, Some 64]"
proof -
  have "length (base64 example_deps example_response) = 66"
    by (simp add: example_deps_def example_response_decoded)
  then show ?thesis
    by (simp add: inline_run_signatures completed_run_trace Let_def example_response_decoded)
qed

theorem inline_reveal_signature_unstripped_witness:
  "map (map_option length)
     (submitted_signatures
        (fst (snd (spinWheel_inline example_deps example_config env_ok connected_state))))
   \<noteq> map (map_option length)
     (submitted_signatures (fst (snd (spinWheel example_deps example_config env_ok connected_state))))"
  using inline_reveal_signature_unstripped by simp

subsection \<open>The accounts of CommitSpin\<close>

text \<open>
  Claim C3. Every CommitSpin instruction that \<^verbatim>\<open>spinWheel\<close> builds or submits has
  exactly two account references, in this order: the connected public key as a signer
  that is not writable, then the wheel-state account, writable and not a signer.
\<close>

theorem commit_accounts:
  assumes run: "spinWheel d cfg env st = (st', tr, out)"
    and i: "i \<in> set (built tr) \<union> set (submitted tr)"
    and commit: "is_CommitSpin i"
  shows "\<exists>pk. publicKey st = Some pk \<and>
     accounts i =
       [\<lparr>pubkey = fromHex d pk, is_signer = True, is_writable = False\<rparr>,
        \<lparr>pubkey = fromHex d (VITE_WHEEL_STATE_ACCOUNT cfg), is_signer = False, is_writable = True\<rparr>]"
proof (cases "spinnable st")
  case False
  with run i show ?thesis by (simp add: spinWheel_rejects)
next
  case True
  then obtain pk where pk: "publicKey st = Some pk"
    by (cases "publicKey st") (auto simp add: spinnable_def falsy_def)
  from spin_trace_shape [OF True run] i commit pk
  have "i = commitInstruction d cfg pk (sha256 (getRandomValues (entropy env) 32))"
    by auto
  with pk show ?thesis by (simp add: commitInstruction_def)
qed

theorem commit_accounts_witness:
  "commitInstruction example_deps example_config ''0e0f'' (sha256 (getRandomValues (entropy env_ok) 32))
     \<in> set (built (fst (snd (spinWheel example_deps example_config env_cancel connected_state)))) \<and>
   is_CommitSpin (commitInstruction example_deps example_config ''0e0f''
     (sha256 (getRandomValues (entropy env_ok) 32))) \<and>
   accounts (commitInstruction example_deps example_config ''0e0f''
     (sha256 (getRandomValues (entropy env_ok) 32))) =
     [\<lparr>pubkey = [14, 15], is_signer = True, is_writable = False\<rparr>,
      \<lparr>pubkey = [177, 178], is_signer = False, is_writable = True\<rparr>]"
proof -
  let ?i = "commitInstruction example_deps example_config ''0e0f''
     (sha256 (getRandomValues (entropy env_ok) 32))"
  have mem: "?i \<in> set (built (fst (snd (spinWheel example_deps example_config env_cancel connected_state))))
       \<union> set (submitted (fst (snd (spinWheel example_deps example_config env_cancel connected_state))))"
    by (simp add: cancelled_run)
  have c: "is_CommitSpin ?i" by simp
  have run: "spinWheel example_deps example_config env_cancel connected_state =
      (fst (spinWheel example_deps example_config env_cancel connected_state),
       fst (snd (spinWheel example_deps example_config env_cancel connected_state)),
       snd (snd (spinWheel example_deps example_config env_cancel connected_state)))"
    by simp
  from commit_accounts [OF run mem c]
  have acc: "accounts ?i =
     [\<lparr>pubkey = [14, 15], is_signer = True, is_writable = False\<rparr>,
      \<lparr>pubkey = [177, 178], is_signer = False, is_writable = True\<rparr>]"
    by (simp add: connected_state_def initial_state_def example_deps_def
        example_config_def hex_digit_def)
  have "?i \<in> set (built (fst (snd (spinWheel example_deps example_config env_cancel connected_state))))"
    by (simp add: cancelled_run)
  with acc c show ?thesis by blast
qed

subsection \<open>One spin at a time\<close>

lemma drop_attempt_single: "length as \<le> 1 \<Longrightarrow> i < length as \<Longrightarrow> drop_attempt i as = []"
  by (cases as) (simp_all add: drop_attempt_def)

lemma draw_prize_keeps_spinning:
  "isSpinning (wheelState (fst (draw_prize wd r st))) = isSpinning (wheelState st)"
  by (simp add: draw_prize_def Let_def)

lemma step_one_in_flight:
  assumes "one_in_flight s"
  shows "one_in_flight (step d cfg s inp)"
proof (cases inp)
  case (Spin_request src)
  with assms show ?thesis
    by (auto simp add: step_def one_in_flight_def set_isSpinning_def Let_def split: option.splits)
next
  case (Commit_settled i w rpc)
  with assms show ?thesis
    by (auto simp add: step_def one_in_flight_def Let_def drop_attempt_single
        split: prod.splits sum.splits)
next
  case (Reveal_settled i w rpc rnd)
  with assms show ?thesis
    using draw_prize_keeps_spinning [of wheelData rnd "app s"]
    by (auto simp add: step_def one_in_flight_def Let_def drop_attempt_single
        split: prod.splits sum.splits)
next
  case (Animation_over i)
  with assms show ?thesis
    by (auto simp add: step_def one_in_flight_def drop_attempt_single)
qed

lemma run_one_in_flight:
  "one_in_flight s \<Longrightarrow> one_in_flight (run_session d cfg s inputs)"
  unfolding run_session_def
  by (induction inputs arbitrary: s) (simp_all add: step_one_in_flight)

lemma busy_request_ignored:
  "isSpinning (wheelState (app s)) \<Longrightarrow> step d cfg s (Spin_request src) = s"
  by (simp add: step_def split: option.splits)

text \<open>
  The session and the function agree: a spin that passes the guard and whose two
  transactions settle one after the other, with nothing in between, leaves the state and
  the trace of \<^verbatim>\<open>spinWheel\<close>.
\<close>

lemma session_runs_spinWheel:
  assumes ok: "spinnable st"
  shows "app (run_session d cfg (session_start st)
            [Spin_request (entropy env),
             Commit_settled 0 (commit_wallet env) (commit_rpc env),
             Reveal_settled 0 (reveal_wallet env) (reveal_rpc env) (math_random env)])
           = fst (spinWheel d cfg env st) \<and>
         history (run_session d cfg (session_start st)
            [Spin_request (entropy env),
             Commit_settled 0 (commit_wallet env) (commit_rpc env),
             Reveal_settled 0 (reveal_wallet env) (reveal_rpc env) (math_random env)])
           = fst (snd (spinWheel d cfg env st))"
proof -
  from ok obtain wa pk where k: "walletAddress st = Some wa" "publicKey st = Some pk"
    "wa \<noteq> []" "pk \<noteq> []" "sdk st" "\<not> isSpinning (wheelState st)"
    by (auto simp add: spinnable_def falsy_def split: option.splits)
  show ?thesis
    using k
    by (auto simp add: run_session_def session_start_def step_def spinWheel_def Let_def
        drop_attempt_def set_isSpinning_def draw_prize_def
        split: prod.splits sum.splits)
qed

text \<open>
  Claim C4. A call of \<^verbatim>\<open>spinWheel\<close> that finds \<open>isSpinning\<close> set returns at
  once, with the state unchanged and an empty trace. In a session, whatever the page
  receives and in whatever order, at most one spin is in flight; while one is,
  \<open>isSpinning\<close> is set and a further spin request leaves the whole session as it is:
  it is not queued, and no CommitSpin instruction is built for it.
\<close>

theorem one_spin_in_flight:
  "(isSpinning (wheelState st) \<longrightarrow> spinWheel d cfg env st = (st, [], Rejected)) \<and>
   length (attempts (run_session d cfg (session_start st) inputs)) \<le> 1 \<and>
   (attempts (run_session d cfg (session_start st) inputs) \<noteq> [] \<longrightarrow>
      isSpinning (wheelState (app (run_session d cfg (session_start st) inputs))) \<and>
      step d cfg (run_session d cfg (session_start st) inputs) (Spin_request src)
        = run_session d cfg (session_start st) inputs)"
proof -
  have "one_in_flight (session_start st)"
    by (simp add: one_in_flight_def session_start_def)
  then have inv: "one_in_flight (run_session d cfg (session_start st) inputs)"
    by (rule run_one_in_flight)
  have single: "isSpinning (wheelState st) \<longrightarrow> spinWheel d cfg env st = (st, [], Rejected)"
    by (simp add: spinWheel_def split: option.splits)
  from inv single show ?thesis
    by (auto simp add: one_in_flight_def busy_request_ignored)
qed

theorem one_spin_in_flight_witness:
  "isSpinning (wheelState (set_isSpinning True connected_state)) \<and>
   spinWheel example_deps example_config env_ok (set_isSpinning True connected_state)
     = (set_isSpinning True connected_state, [], Rejected) \<and>
   length (attempts (run_session example_deps example_config (session_start connected_state)
      [Spin_request (entropy env_ok)])) = 1 \<and>
   run_session example_deps example_config (session_start connected_state)
      [Spin_request (entropy env_ok), Spin_request (entropy env_second)]
   = run_session example_deps example_config (session_start connected_state)
      [Spin_request (entropy env_ok)] \<and>
   history (run_session example_deps example_config (session_start connected_state)
      [Spin_request (entropy env_ok), Spin_request (entropy env_second)])
     = [Built (commitInstruction example_deps example_config ''0e0f''
          (sha256 (getRandomValues (entropy env_ok) 32)))]"
proof -
  have busy: "isSpinning (wheelState (set_isSpinning True connected_state))"
    by (simp add: set_isSpinning_def)
  from one_spin_in_flight [of "set_isSpinning True connected_state" example_deps example_config
      env_ok "[]" "entropy env_second"] busy
  have rejected: "spinWheel example_deps example_config env_ok (set_isSpinning True connected_state)
     = (set_isSpinning True connected_state, [], Rejected)"
    by blast
  have flying: "attempts (run_session example_deps example_config (session_start connected_state)
      [Spin_request (entropy env_ok)]) \<noteq> []"
    by (simp add: two_requests)
  from one_spin_in_flight [of connected_state example_deps example_config env_ok
      "[Spin_request (entropy env_ok)]" "entropy env_second"] flying
  have "step example_deps example_config
          (run_session example_deps example_config (session_start connected_state)
             [Spin_request (entropy env_ok)]) (Spin_request (entropy env_second))
        = run_session example_deps example_config (session_start connected_state)
             [Spin_request (entropy env_ok)]"
    by blast
  then have same: "run_session example_deps example_config (session_start connected_state)
      [Spin_request (entropy env_ok), Spin_request (entropy env_second)]
   = run_session example_deps example_config (session_start connected_state)
      [Spin_request (entropy env_ok)]"
    by (simp add: run_session_def)
  from busy rejected same show ?thesis
    by (simp add: two_requests)
qed

subsection \<open>A failed commit step\<close>

text \<open>
  Claim C5. When the commit step fails (the user cancels the signing, the wallet gives no
  usable response, or the endpoint rejects the submission), the spin ends as failed: the
  \<^verbatim>\<open>catch\<close> block clears \<open>isSpinning\<close>, which leaves the state as it was
  before the request, and the trace builds and submits no RevealSpin instruction. A
  cancelled signing fails with the callback's own error.
\<close>

theorem commit_failure_ends_spin:
  assumes ok: "spinnable st"
    and bad: "commit_wallet env = Cancel \<or> commit_wallet env = Silent \<or>
              (\<exists>r. commit_wallet env = Finish r \<and> falsy r) \<or> isl (commit_rpc env)"
    and run: "spinWheel d cfg env st = (st', tr, out)"
  shows "(\<exists>e. out = Failed e) \<and>
         (commit_wallet env = Cancel \<longrightarrow> out = Failed User_cancelled_signing) \<and>
         st' = st \<and> \<not> isSpinning (wheelState st') \<and>
         filter is_RevealSpin (built tr) = [] \<and> filter is_RevealSpin (submitted tr) = []"
proof -
  define wa pk cix where "wa = the (walletAddress st)" and "pk = the (publicKey st)"
    and "cix = commitInstruction d cfg pk (sha256 (getRandomValues (entropy env) 32))"
  define c where "c = sendTransaction d (commit_wallet env) (commit_rpc env) wa pk cix"
  from bad have "isl (snd c)"
    unfolding c_def by (rule sendTransaction_fails)
  then obtain e where e: "snd c = Inl e"
    by (cases "snd c") auto
  from ok have idle: "\<not> isSpinning (wheelState st)"
    by (simp add: spinnable_def)
  from run e have res: "st' = st" "tr = Built cix # fst c" "out = Failed e"
    using restore_state [OF idle]
    by (auto simp add: spinWheel_unfold [OF ok] Let_def c_def cix_def wa_def pk_def)
  have cancel: "commit_wallet env = Cancel \<Longrightarrow> e = User_cancelled_signing"
    using e sendTransaction_cancel [of d "commit_rpc env" wa pk cix] by (simp add: c_def)
  have no_built: "built (fst c) = []"
    unfolding c_def by (rule sendTransaction_built)
  have sub: "submitted (fst c) = [] \<or> submitted (fst c) = [cix]"
    unfolding c_def by (rule sendTransaction_submitted)
  have not_reveal: "\<not> is_RevealSpin cix"
    by (simp add: cix_def)
  from res cancel idle no_built sub not_reveal show ?thesis
    by auto
qed

theorem commit_failure_ends_spin_witness:
  "spinnable connected_state \<and> commit_wallet env_cancel = Cancel \<and>
   snd (snd (spinWheel example_deps example_config env_cancel connected_state))
     = Failed User_cancelled_signing \<and>
   fst (spinWheel example_deps example_config env_cancel connected_state) = connected_state \<and>
   \<not> isSpinning (wheelState (fst (spinWheel example_deps example_config env_cancel connected_state))) \<and>
   filter is_RevealSpin
     (built (fst (snd (spinWheel example_deps example_config env_cancel connected_state)))) = []"
proof -
  have c: "commit_wallet env_cancel = Cancel"
    by (simp add: env_cancel_def)
  then have bad: "commit_wallet env_cancel = Cancel \<or> commit_wallet env_cancel = Silent \<or>
      (\<exists>r. commit_wallet env_cancel = Finish r \<and> falsy r) \<or> isl (commit_rpc env_cancel)"
    by simp
  from commit_failure_ends_spin [OF connected_spinnable bad cancelled_run] c connected_spinnable
  show ?thesis by (simp add: cancelled_run)
qed

subsection \<open>What \<^verbatim>\<open>initializeWheel\<close> encodes\<close>

text \<open>
  The one payload of the program: the three options of the wheel data and the
  probabilities 34, 33, 33. Every instruction \<^verbatim>\<open>initializeWheel\<close> builds or submits
  carries these bytes.
\<close>

lemma wheel_instructionData:
  "instructionData (map option wheelData) [34, 33, 33] =
     [0, 3, 0, 0, 0,
      9, 0, 0, 0, 80, 117, 98, 32, 35, 49, 50, 51, 32,
      5, 0, 0, 0, 76, 111, 115, 101, 114,
      5, 0, 0, 0, 76, 111, 115, 101, 114,
      3, 0, 0, 0, 34, 33, 33]"
  by (simp add: instructionData_def Buffer_concat_def Uint8Array_from_def encode_array_def
      encode_string_def encode_u8_def le32_def wheelData_def)

lemma initializeWheel_data:
  assumes run: "initializeWheel d cfg env st = (st', tr, out)"
    and i: "i \<in> set (built tr) \<union> set (submitted tr)"
  shows "data i = instructionData (map option wheelData) [34, 33, 33]"
proof -
  define ix where "ix = initInstruction d cfg (the (publicKey st))
      (instructionData (map option wheelData) [34, 33, 33])"
  define c where "c = sendTransaction d (init_wallet env) (init_rpc env)
      (the (walletAddress st)) (the (publicKey st)) ix"
  have b: "built (fst c) = []"
    unfolding c_def by (rule sendTransaction_built)
  have s: "submitted (fst c) = [] \<or> submitted (fst c) = [ix]"
    unfolding c_def by (rule sendTransaction_submitted)
  from run have "tr = [] \<or> tr = Built ix # fst c"
    by (auto simp add: initializeWheel_def Let_def case_prod_beta c_def ix_def
        split: option.splits sum.splits if_splits)
  with i b s have "i = ix" by auto
  then show ?thesis by (simp add: ix_def initInstruction_def)
qed

text \<open>
  A run with a wallet that signs and an endpoint that accepts: the payload is submitted
  and the call returns. Its two sequences have three entries each and every probability
  fits a byte.
\<close>

lemma initialize_run:
  "snd (snd (initializeWheel example_deps example_config init_env_ok connected_state)) = Inr () \<and>
   map data (submitted (fst (snd
     (initializeWheel example_deps example_config init_env_ok connected_state))))
     = [instructionData (map option wheelData) [34, 33, 33]] \<and>
   length (map option wheelData) = length [34, 33, 33 :: int] \<and>
   list_all (\<lambda>q. 0 \<le> q \<and> q \<le> 255) [34, 33, 33 :: int]"
  by (simp add: initializeWheel_def connected_state_def
      initial_state_def init_env_ok_def sendTransaction_def signMessage_def
      sendTransaction_onFinish_def Let_def example_response_def checkWheelState_def
      initInstruction_def wheelData_def split: prod.splits)

subsection \<open>The InitializeWheel payload\<close>

text \<open>
  Borsh first: what the encoders write, the decoders read back.
\<close>

lemma unat_byte_of_u32:
  "unat (ucast (drop_bit k (of_nat n :: u32)) :: byte) = (n mod 2 ^ 32) div 2 ^ k mod 256"
proof -
  have "unat (ucast (drop_bit k (of_nat n :: u32)) :: byte) = unat (drop_bit k (of_nat n :: u32)) mod 2 ^ 8"
    by (simp add: unsigned_ucast_eq take_bit_eq_mod)
  also have "unat (drop_bit k (of_nat n :: u32)) = drop_bit k (unat (of_nat n :: u32))"
    by (rule unat_drop_bit_eq)
  also have "\<dots> = unat (of_nat n :: u32) div 2 ^ k"
    by (rule drop_bit_eq_div)
  also have "unat (of_nat n :: u32) = n mod 2 ^ 32"
    by (simp add: unat_of_nat)
  finally show ?thesis by simp
qed

lemma unat_byte_of_u32_0:
  "unat (ucast (of_nat n :: u32) :: byte) = (n mod 2 ^ 32) mod 256"
  using unat_byte_of_u32 [of 0 n] by simp

lemma split_u32:
  fixes n :: nat
  assumes "n < 4294967296"
  shows "n mod 256 + 256 * (n div 256 mod 256) + 65536 * (n div 65536 mod 256)
          + 16777216 * (n div 16777216 mod 256) = n"
proof -
  define q1 q2 q3 where "q1 = n div 256" and "q2 = q1 div 256" and "q3 = q2 div 256"
  define a b c where "a = n mod 256" and "b = q1 mod 256" and "c = q2 mod 256"
  have d1: "n div 65536 = q2" and d2: "n div 16777216 = q3"
    by (simp_all add: q1_def q2_def q3_def div_mult2_eq [symmetric])
  have small: "q3 mod 256 = q3"
    using assms by (simp add: q1_def q2_def q3_def div_mult2_eq [symmetric])
  have e1: "n = a + 256 * q1" by (simp add: a_def q1_def)
  have e2: "q1 = b + 256 * q2" by (simp add: b_def q2_def)
  have e3: "q2 = c + 256 * q3" by (simp add: c_def q3_def)
  have "a + 256 * b + 65536 * c + 16777216 * q3 = n"
    using e1 e2 e3 by linarith
  then show ?thesis
    by (simp add: d1 d2 small a_def [symmetric] b_def [symmetric] c_def [symmetric] q1_def [symmetric])
qed

lemma decode_u32_le32:
  assumes "n < 2 ^ 32"
  shows "decode_u32 (le32 n @ rest) = Some (n, rest)"
  using assms split_u32 [of n]
  by (simp add: decode_u32_def le32_def Let_def unat_byte_of_u32 [of 8] unat_byte_of_u32 [of 16]
      unat_byte_of_u32 [of 24] unat_byte_of_u32_0)

lemma char_of_byte: "char_of (unat (of_char c :: byte)) = c"
proof -
  have "unat (of_char c :: byte) = unat (of_nat (of_char c) :: byte)"
    by (simp only: of_nat_of_char)
  also have "\<dots> = of_char c mod 256"
    by (simp only: unat_of_nat) simp
  finally show ?thesis by simp
qed

lemma decode_string_encode:
  assumes "length s < 2 ^ 32"
  shows "decode_string (encode_string s @ rest) = Some (s, rest)"
  using assms
  by (simp add: decode_string_def encode_string_def decode_u32_le32 char_of_byte comp_def
      del: of_nat_numeral)

lemma decode_u8_encode: "decode_u8 (encode_u8 b @ rest) = Some (b, rest)"
  by (simp add: decode_u8_def encode_u8_def)

lemma decode_items_encode:
  assumes "\<And>x r. x \<in> set xs \<Longrightarrow> dec (enc x @ r) = Some (x, r)"
  shows "decode_items dec (length xs) (concat (map enc xs) @ rest) = Some (xs, rest)"
  using assms by (induction xs) simp_all

lemma decode_array_encode:
  assumes "length xs < 2 ^ 32"
    and "\<And>x r. x \<in> set xs \<Longrightarrow> dec (enc x @ r) = Some (x, r)"
  shows "decode_array dec (encode_array enc xs @ rest) = Some (xs, rest)"
  using assms
  by (simp add: decode_array_def encode_array_def decode_u32_le32 decode_items_encode
      del: of_nat_numeral)

lemma uint_byte_of_int:
  assumes "0 \<le> q" and "q \<le> 255"
  shows "uint (of_int q :: byte) = q"
  using assms by (simp add: uint_word_of_int)

lemma uint_byte_wraps: "uint (of_int q :: byte) = q mod 256"
  by (simp add: uint_word_of_int)

text \<open>
  Claim C7. For prizes and probabilities that fit the format (fewer than \<open>2\<^sup>3\<^sup>2\<close>
  entries and bytes per string, every probability between 0 and 255), the instruction
  data is the discriminant byte 0, then the length-prefixed string array of the prizes,
  then the length-prefixed byte array of the probabilities, and decoding that byte string
  gives the prizes and probabilities back. The scenario of the spec, prizes A, B, C with
  probabilities 34, 33, 33, is the instance computed below.
\<close>

theorem initialize_data_roundtrip:
  assumes "length ps < 2 ^ 32" and "\<forall>p \<in> set ps. length p < 2 ^ 32"
    and "length qs < 2 ^ 32" and "\<forall>q \<in> set qs. 0 \<le> q \<and> q \<le> 255"
  shows "instructionData ps qs =
           0 # encode_array encode_string ps @ encode_array encode_u8 (map of_int qs) \<and>
         decode_InitializeWheel (instructionData ps qs) = Some (ps, qs)"
proof -
  have strings: "decode_array decode_string (encode_array encode_string ps @ rest) = Some (ps, rest)" for rest
    using assms(1,2) by (intro decode_array_encode decode_string_encode) auto
  have bytes: "decode_array decode_u8 (encode_array encode_u8 (map of_int qs) @ rest)
      = Some (map of_int qs, rest)" for rest
    using assms(3) by (intro decode_array_encode decode_u8_encode) auto
  have restored: "map (uint \<circ> (of_int :: int \<Rightarrow> byte)) qs = qs"
    using assms(4) by (intro map_idI) (simp add: uint_byte_of_int)
  have shape: "instructionData ps qs =
      0 # encode_array encode_string ps @ encode_array encode_u8 (map of_int qs)"
    by (simp add: instructionData_def Buffer_concat_def Uint8Array_from_def)
  from bytes [of "[]"] have bytes': "decode_array decode_u8 (encode_array encode_u8 (map of_int qs))
      = Some (map of_int qs, [])" by simp
  show ?thesis
    by (simp add: shape decode_InitializeWheel_def strings bytes' restored)
qed

theorem initialize_data_roundtrip_witness:
  "length [''A'', ''B'', ''C''] < 2 ^ 32 \<and> length [34, 33, 33 :: int] < 2 ^ 32 \<and>
   instructionData [''A'', ''B'', ''C''] [34, 33, 33] =
     [0, 3, 0, 0, 0, 1, 0, 0, 0, 65, 1, 0, 0, 0, 66, 1, 0, 0, 0, 67, 3, 0, 0, 0, 34, 33, 33] \<and>
   decode_InitializeWheel
     [0, 3, 0, 0, 0, 1, 0, 0, 0, 65, 1, 0, 0, 0, 66, 1, 0, 0, 0, 67, 3, 0, 0, 0, 34, 33, 33]
     = Some ([''A'', ''B'', ''C''], [34, 33, 33])"
proof -
  have sizes: "length [''A'', ''B'', ''C''] < 2 ^ 32" "\<forall>p \<in> set [''A'', ''B'', ''C'']. length p < 2 ^ 32"
    "length [34, 33, 33 :: int] < 2 ^ 32" "\<forall>q \<in> set [34, 33, 33 :: int]. 0 \<le> q \<and> q \<le> 255"
    by simp_all
  from initialize_data_roundtrip [OF sizes]
  have "decode_InitializeWheel (instructionData [''A'', ''B'', ''C''] [34, 33, 33])
      = Some ([''A'', ''B'', ''C''], [34, 33, 33])"
    by (rule conjunct2)
  then show ?thesis
    by (simp add: example_instructionData)
qed

subsection \<open>The CommitSpin payload\<close>

text \<open>
  Claim C8. For every 32-byte commitment \<open>C\<close>, the data of the CommitSpin
  instruction is the discriminant byte 1 followed at once by \<open>C\<close>, 33 bytes in all.
  The commitment of a spin is a SHA-256 digest, so every CommitSpin instruction that
  \<^verbatim>\<open>spinWheel\<close> builds or submits has these 33 bytes of data.
\<close>

theorem commit_data_layout:
  "(length C = 32 \<longrightarrow>
      data (commitInstruction d cfg pk C) = 1 # C \<and>
      length (data (commitInstruction d cfg pk C)) = 33) \<and>
   (spinWheel d cfg env st = (st', tr, out) \<longrightarrow>
      (\<forall>i \<in> set (built tr) \<union> set (submitted tr). is_CommitSpin i \<longrightarrow>
         data i = 1 # sha256 (getRandomValues (entropy env) 32) \<and> length (data i) = 33))"
proof (intro conjI impI ballI)
  assume "length C = 32"
  then show "data (commitInstruction d cfg pk C) = 1 # C"
    and "length (data (commitInstruction d cfg pk C)) = 33"
    by (simp_all add: commitInstruction_def Buffer_concat_def)
next
  fix i
  assume run: "spinWheel d cfg env st = (st', tr, out)"
    and i: "i \<in> set (built tr) \<union> set (submitted tr)" and c: "is_CommitSpin i"
  have "spinnable st"
  proof (rule ccontr)
    assume "\<not> spinnable st"
    with run i show False by (simp add: spinWheel_rejects)
  qed
  from spin_trace_shape [OF this run] i c
  have "i = commitInstruction d cfg (the (publicKey st)) (sha256 (getRandomValues (entropy env) 32))"
    by auto
  then show "data i = 1 # sha256 (getRandomValues (entropy env) 32)" and "length (data i) = 33"
    by (simp_all add: commitInstruction_def Buffer_concat_def sha256_length)
qed

theorem commit_data_layout_witness:
  "length (sha256 (getRandomValues (entropy env_ok) 32)) = 32 \<and>
   map data (filter is_CommitSpin
     (built (fst (snd (spinWheel example_deps example_config env_cancel connected_state)))))
     = [1 # sha256 (getRandomValues (entropy env_ok) 32)] \<and>
   map (\<lambda>i. length (data i)) (filter is_CommitSpin
     (built (fst (snd (spinWheel example_deps example_config env_cancel connected_state))))) = [33]"
proof -
  let ?C = "sha256 (getRandomValues (entropy env_ok) 32)"
  have len: "length ?C = 32" by (rule sha256_length)
  from commit_data_layout [of ?C example_deps example_config "''0e0f''" env_cancel connected_state
      connected_state "fst (snd (spinWheel example_deps example_config env_cancel connected_state))"
      "Failed User_cancelled_signing"] len
  show ?thesis
    by (simp add: cancelled_run)
qed

subsection \<open>Reading a wheel that is not there\<close>

text \<open>
  Every decoder consumes bytes, so the library's decoder of the wheel state fails on a
  buffer shorter than the flag and the two length prefixes, the empty buffer first of
  all. It also fails on a string whose bytes give a code point above \<^verbatim>\<open>0x10FFFF\<close>.
\<close>

lemma decode_u32_length: "decode_u32 bs = Some (n, rest) \<Longrightarrow> length bs = length rest + 4"
  by (auto simp add: decode_u32_def split: list.splits)

lemma decode_u8_length: "decode_u8 bs = Some (b, rest) \<Longrightarrow> length bs = length rest + 1"
  by (auto simp add: decode_u8_def split: list.splits)

lemma decode_js_string_length:
  "decode_js_string bs = Some (s, rest) \<Longrightarrow> length rest \<le> length bs"
  by (auto simp add: decode_js_string_def Let_def dest!: decode_u32_length
      split: option.splits if_splits)

lemma decode_items_length:
  assumes dec: "\<And>b x r. dec b = Some (x, r) \<Longrightarrow> length r \<le> length b"
  shows "decode_items dec n bs = Some (xs, rest) \<Longrightarrow> length rest \<le> length bs"
proof (induction n arbitrary: bs xs rest)
  case 0
  then show ?case by simp
next
  case (Suc n)
  from Suc.prems obtain x r ys where d: "dec bs = Some (x, r)"
    and rec: "decode_items dec n r = Some (ys, rest)"
    by (auto split: option.splits)
  from dec [OF d] Suc.IH [OF rec] show ?case by simp
qed

lemma short_buffer_undecodable:
  assumes short: "length bs < 9"
  shows "deserialize_WheelState bs = None"
proof (rule ccontr)
  assume "deserialize_WheelState bs \<noteq> None"
  then obtain i rest1 ps rest2 qs rest3
    where flag: "decode_bool bs = Some (i, rest1)"
      and strings: "decode_array decode_js_string rest1 = Some (ps, rest2)"
      and numbers: "decode_array decode_u8 rest2 = Some (qs, rest3)"
    by (auto simp add: deserialize_WheelState_def split: option.splits)
  from flag have l1: "length bs = length rest1 + 1"
    by (auto simp add: decode_bool_def dest: decode_u8_length split: option.splits)
  from strings obtain n r where p: "decode_u32 rest1 = Some (n, r)"
    and items: "decode_items decode_js_string n r = Some (ps, rest2)"
    by (auto simp add: decode_array_def split: option.splits)
  from decode_items_length [OF decode_js_string_length items]
  have l2: "length rest2 \<le> length r" .
  from numbers obtain m r' where q: "decode_u32 rest2 = Some (m, r')"
    by (auto simp add: decode_array_def split: option.splits)
  from decode_u32_length [OF p] decode_u32_length [OF q] l1 l2 short show False
    by simp
qed

lemma invalid_code_point_undecodable:
  "deserialize_WheelState [1, 1, 0, 0, 0, 4, 0, 0, 0, 247, 191, 191, 191, 0, 0, 0, 0] = None"
  by (simp add: deserialize_WheelState_def decode_bool_def decode_u8_def decode_array_def
      decode_u32_def decode_js_string_def continuation_def)

lemma initialized_wheel_decodes:
  "deserialize_WheelState [1, 1, 0, 0, 0, 4, 0, 0, 0, 240, 159, 142, 129, 1, 0, 0, 0, 100] =
     Some \<lparr>initialized = True, prizes = [[127873]], probabilities = [100]\<rparr>"
  by (simp add: deserialize_WheelState_def decode_bool_def decode_u8_def decode_array_def
      decode_u32_def decode_js_string_def continuation_def)

text \<open>
  Claim C9. \<^verbatim>\<open>checkWheelState\<close> always returns normally: no exception, of the read
  or of the decoding, reaches its caller. With a connection it sets \<open>isInitialized\<close>
  to false when the read fails or returns nothing, when the account has no data, and when
  \<^verbatim>\<open>borsh.deserialize\<close> throws on the data, for whatever reason the library throws:
  its decoder is a parameter here. Zero bytes are such data: with the decoder of
  borsh 2.0.0, no buffer of fewer than nine bytes decodes.
\<close>

theorem reader_reports_uninitialized:
  "\<not> isl (snd (checkWheelState d cfg rd st)) \<and>
   (sdk st \<and>
    (isl rd \<or> rd = Inr None \<or>
     (\<exists>info. rd = Inr (Some info) \<and>
        (info_data info = None \<or>
         (\<exists>bs. info_data info = Some bs \<and> deserialize d bs = None))))
    \<longrightarrow> fst (checkWheelState d cfg rd st) = st\<lparr>isInitialized := False\<rparr> \<and>
        \<not> isInitialized (fst (checkWheelState d cfg rd st))) \<and>
   (sdk st \<and> deserialize d = deserialize_WheelState \<and> length bs < 9
    \<longrightarrow> fst (checkWheelState d cfg (Inr (Some \<lparr>info_data = Some bs\<rparr>)) st)
          = st\<lparr>isInitialized := False\<rparr>)"
proof -
  have returns: "\<not> isl (snd (checkWheelState d cfg rd st))"
    by (simp add: checkWheelState_def split: sum.splits option.splits)
  have failing: "sdk st \<and>
    (isl rd \<or> rd = Inr None \<or>
     (\<exists>info. rd = Inr (Some info) \<and>
        (info_data info = None \<or>
         (\<exists>bs. info_data info = Some bs \<and> deserialize d bs = None))))
    \<longrightarrow> fst (checkWheelState d cfg rd st) = st\<lparr>isInitialized := False\<rparr> \<and>
        \<not> isInitialized (fst (checkWheelState d cfg rd st))"
    by (auto simp add: checkWheelState_def split: sum.splits option.splits)
  have short: "sdk st \<and> deserialize d = deserialize_WheelState \<and> length bs < 9
    \<longrightarrow> fst (checkWheelState d cfg (Inr (Some \<lparr>info_data = Some bs\<rparr>)) st)
          = st\<lparr>isInitialized := False\<rparr>"
    by (simp add: checkWheelState_def short_buffer_undecodable)
  from returns failing short show ?thesis by simp
qed

theorem reader_reports_uninitialized_witness:
  "sdk connected_state \<and>
   deserialize example_deps [1, 7] = None \<and>
   deserialize example_deps [1, 1, 0, 0, 0, 4, 0, 0, 0, 247, 191, 191, 191, 0, 0, 0, 0] = None \<and>
   checkWheelState example_deps example_config (Inr None) connected_state
     = (connected_state\<lparr>isInitialized := False\<rparr>, Inr None) \<and>
   checkWheelState example_deps example_config (Inr (Some \<lparr>info_data = None\<rparr>)) connected_state
     = (connected_state\<lparr>isInitialized := False\<rparr>, Inr None) \<and>
   checkWheelState example_deps example_config (Inr (Some \<lparr>info_data = Some []\<rparr>)) connected_state
     = (connected_state\<lparr>isInitialized := False\<rparr>, Inr (Some [])) \<and>
   checkWheelState example_deps example_config (Inr (Some \<lparr>info_data = Some [1, 7]\<rparr>)) connected_state
     = (connected_state\<lparr>isInitialized := False\<rparr>, Inr (Some [1, 7])) \<and>
   checkWheelState example_deps example_config
      (Inr (Some \<lparr>info_data = Some [1, 1, 0, 0, 0, 4, 0, 0, 0, 247, 191, 191, 191, 0, 0, 0, 0]\<rparr>))
      (connected_state\<lparr>isInitialized := True\<rparr>)
     = (connected_state\<lparr>isInitialized := False\<rparr>,
        Inr (Some [1, 1, 0, 0, 0, 4, 0, 0, 0, 247, 191, 191, 191, 0, 0, 0, 0])) \<and>
   checkWheelState example_deps example_config
      (Inr (Some \<lparr>info_data =
         Some [1, 1, 0, 0, 0, 4, 0, 0, 0, 240, 159, 142, 129, 1, 0, 0, 0, 100]\<rparr>)) connected_state
     = (connected_state\<lparr>isInitialized := True\<rparr>,
        Inr (Some [1, 1, 0, 0, 0, 4, 0, 0, 0, 240, 159, 142, 129, 1, 0, 0, 0, 100]))"
proof -
  have c: "sdk connected_state" "sdk (connected_state\<lparr>isInitialized := True\<rparr>)"
    by (simp_all add: connected_state_def initial_state_def)
  have lib: "deserialize example_deps = deserialize_WheelState"
    by (simp add: example_deps_def)
  have u: "deserialize_WheelState [1, 7] = None"
    by (rule short_buffer_undecodable) simp
  have e: "deserialize_WheelState [] = None"
    by (rule short_buffer_undecodable) simp
  from reader_reports_uninitialized [of example_deps example_config "Inr None" connected_state "[]"]
    reader_reports_uninitialized [of example_deps example_config
      "Inr (Some \<lparr>info_data = None\<rparr>)" connected_state "[]"]
    reader_reports_uninitialized [of example_deps example_config
      "Inr (Some \<lparr>info_data = Some [1, 7]\<rparr>)" connected_state "[1, 7]"]
    reader_reports_uninitialized [of example_deps example_config
      "Inr (Some \<lparr>info_data = Some [1, 1, 0, 0, 0, 4, 0, 0, 0, 247, 191, 191, 191, 0, 0, 0, 0]\<rparr>)"
      "connected_state\<lparr>isInitialized := True\<rparr>" "[]"]
    c lib u e
  show ?thesis
    by (simp add: checkWheelState_def invalid_code_point_undecodable initialized_wheel_decodes)
qed

subsection \<open>The placeholder draw\<close>

lemma draw_prize_in_range:
  assumes r0: "0 \<le> r" and r1: "r \<le> 1 - 1 / 2 ^ 53" and wd: "wd \<noteq> []"
  shows "\<exists>n. 0 \<le> n \<and> n < int (length wd) \<and>
           draw_prize wd r st =
             (st\<lparr>wheelState := (wheelState st)\<lparr>prizeNumber := n,
                    currentPrize := Some (option (wd ! nat n))\<rparr>\<rparr>, Completed)"
proof -
  from wd have len: "1 \<le> length wd" by (cases wd) simp_all
  define x where "x = double_mult r (of_nat (length wd))"
  from double_mult_below [OF r0 r1 len] have x: "0 \<le> x" "x < of_nat (length wd)"
    by (simp_all add: x_def)
  then have "0 \<le> \<lfloor>x\<rfloor>" and "\<lfloor>x\<rfloor> < int (length wd)"
    by (simp_all add: floor_less_iff)
  then show ?thesis
    by (intro exI [of _ "\<lfloor>x\<rfloor>"]) (simp add: draw_prize_def Let_def x_def)
qed

lemma draw_prize_drawn:
  assumes "0 \<le> r" and "r \<le> 1 - 1 / 2 ^ 53" and "wd \<noteq> []"
  shows "snd (draw_prize wd r st) = Completed \<and> prize_drawn wd (fst (draw_prize wd r st))"
proof -
  from draw_prize_in_range [OF assms, of st] obtain n where n: "0 \<le> n" "n < int (length wd)"
    and d: "draw_prize wd r st =
             (st\<lparr>wheelState := (wheelState st)\<lparr>prizeNumber := n,
                    currentPrize := Some (option (wd ! nat n))\<rparr>\<rparr>, Completed)"
    by blast
  from n have "nat n < length wd" by simp
  then have "wd ! nat n \<in> set wd" by (rule nth_mem)
  with n d show ?thesis by (simp add: prize_drawn_def)
qed

text \<open>
  Claim C10. \<^verbatim>\<open>Math.random()\<close> returns a double that is at least 0 and below 1, so at
  most \<open>1 - 2\<^sup>-\<^sup>5\<^sup>3\<close>. Under that contract a spin that is neither turned away
  nor failed ends \<open>Completed\<close>, with a prize number \<open>n\<close> such that
  \<open>0 \<le> n < length wheelData\<close> and with the option of entry \<open>n\<close>, a configured
  prize, as the current prize. The rounding of the double product is part of the model.
  The same holds for the first front end, whose draw is the same two lines.
\<close>

theorem prize_number_in_range:
  "(0 \<le> math_random env \<and> math_random env \<le> 1 - 1 / 2 ^ 53 \<and>
      spinWheel d cfg env st = (st', tr, out) \<and> out \<noteq> Rejected \<and> (\<forall>e. out \<noteq> Failed e)
      \<longrightarrow> out = Completed \<and> prize_drawn wheelData st') \<and>
   (0 \<le> spin_random env1 \<and> spin_random env1 \<le> 1 - 1 / 2 ^ 53 \<and>
      spinWheel_single d cfg env1 st1 = (st1', tr1, out1) \<and> out1 \<noteq> Rejected \<and> (\<forall>e. out1 \<noteq> Failed e)
      \<longrightarrow> out1 = Completed \<and> prize_drawn wheelData_single st1')"
proof (intro conjI impI)
  assume a: "0 \<le> math_random env \<and> math_random env \<le> 1 - 1 / 2 ^ 53 \<and>
      spinWheel d cfg env st = (st', tr, out) \<and> out \<noteq> Rejected \<and> (\<forall>e. out \<noteq> Failed e)"
  then have "(st', out) = draw_prize wheelData (math_random env) (set_isSpinning True st)"
    using spinWheel_outcomes [of d cfg env st st' tr out] by blast
  moreover have "wheelData \<noteq> []" by (simp add: wheelData_def)
  ultimately show "out = Completed" "prize_drawn wheelData st'"
    using a draw_prize_drawn [of "math_random env" wheelData "set_isSpinning True st"]
    by (metis fst_conv snd_conv)+
next
  assume a: "0 \<le> spin_random env1 \<and> spin_random env1 \<le> 1 - 1 / 2 ^ 53 \<and>
      spinWheel_single d cfg env1 st1 = (st1', tr1, out1) \<and> out1 \<noteq> Rejected \<and> (\<forall>e. out1 \<noteq> Failed e)"
  then have "(st1', out1) = draw_prize wheelData_single (spin_random env1) (set_isSpinning True st1)"
    using spinWheel_single_outcomes [of d cfg env1 st1 st1' tr1 out1] by blast
  moreover have "wheelData_single \<noteq> []" by (simp add: wheelData_single_def)
  ultimately show "out1 = Completed" "prize_drawn wheelData_single st1'"
    using a draw_prize_drawn [of "spin_random env1" wheelData_single "set_isSpinning True st1"]
    by (metis fst_conv snd_conv)+
qed

theorem prize_number_in_range_witness:
  "0 \<le> math_random env_ok \<and> math_random env_ok \<le> 1 - 1 / 2 ^ 53 \<and>
   snd (snd (spinWheel example_deps example_config env_ok connected_state)) = Completed \<and>
   prize_drawn wheelData (fst (spinWheel example_deps example_config env_ok connected_state)) \<and>
   prizeNumber (wheelState (fst (spinWheel example_deps example_config env_ok connected_state))) = 1 \<and>
   currentPrize (wheelState (fst (spinWheel example_deps example_config env_ok connected_state)))
     = Some ''Loser'' \<and>
   0 \<le> spin_random single_env_ok \<and> spin_random single_env_ok \<le> 1 - 1 / 2 ^ 53 \<and>
   snd (snd (spinWheel_single example_deps example_config single_env_ok connected_state)) = Completed \<and>
   prize_drawn wheelData_single
     (fst (spinWheel_single example_deps example_config single_env_ok connected_state)) \<and>
   currentPrize (wheelState
     (fst (spinWheel_single example_deps example_config single_env_ok connected_state)))
     = Some ''Prize 2''"
proof -
  have r: "0 \<le> math_random env_ok" "math_random env_ok \<le> 1 - 1 / 2 ^ 53"
    "0 \<le> spin_random single_env_ok" "spin_random single_env_ok \<le> 1 - 1 / 2 ^ 53"
    by (simp_all add: env_ok_def single_env_ok_def)
  have run: "spinWheel example_deps example_config env_ok connected_state =
      (fst (spinWheel example_deps example_config env_ok connected_state),
       fst (snd (spinWheel example_deps example_config env_ok connected_state)),
       snd (snd (spinWheel example_deps example_config env_ok connected_state)))"
    and run1: "spinWheel_single example_deps example_config single_env_ok connected_state =
      (fst (spinWheel_single example_deps example_config single_env_ok connected_state),
       fst (snd (spinWheel_single example_deps example_config single_env_ok connected_state)),
       snd (snd (spinWheel_single example_deps example_config single_env_ok connected_state)))"
    by simp_all
  have o: "snd (snd (spinWheel example_deps example_config env_ok connected_state)) \<noteq> Rejected"
    "\<forall>e. snd (snd (spinWheel example_deps example_config env_ok connected_state)) \<noteq> Failed e"
    and o1: "snd (snd (spinWheel_single example_deps example_config single_env_ok connected_state)) \<noteq> Rejected"
    "\<forall>e. snd (snd (spinWheel_single example_deps example_config single_env_ok connected_state)) \<noteq> Failed e"
    by (simp_all add: completed_run_state single_run_state)
  note both = prize_number_in_range [of env_ok example_deps example_config connected_state
      "fst (spinWheel example_deps example_config env_ok connected_state)"
      "fst (snd (spinWheel example_deps example_config env_ok connected_state))"
      "snd (snd (spinWheel example_deps example_config env_ok connected_state))"
      single_env_ok connected_state
      "fst (spinWheel_single example_deps example_config single_env_ok connected_state)"
      "fst (snd (spinWheel_single example_deps example_config single_env_ok connected_state))"
      "snd (snd (spinWheel_single example_deps example_config single_env_ok connected_state))"]
  from both [THEN conjunct1] r(1,2) run o
  have "prize_drawn wheelData (fst (spinWheel example_deps example_config env_ok connected_state))"
    by blast
  moreover from both [THEN conjunct2] r(3,4) run1 o1
  have "prize_drawn wheelData_single
     (fst (spinWheel_single example_deps example_config single_env_ok connected_state))"
    by blast
  ultimately show ?thesis
    using r by (simp add: completed_run_state single_run_state)
qed

end
